theory Spec2Isabelle
  imports Complex_Main "HOL-Library.Product_Lexorder" "HOL-Library.Multiset"
begin

section \<open>Numbers and time\<close>

text \<open>
  A JavaScript number is an IEEE 754 double: a finite value, one of the two infinities,
  or NaN.  A finite double is modelled by the real number it denotes, and every
  arithmetic operation rounds its exact result to the nearest double, a tie going to the
  even significand (\<open>binary64\<close>).  The sign of a zero is not represented: the modelled
  code divides only by the literals 2, 10 and 180, and the arguments it hands to
  \<open>Math.atan2\<close> are square roots.  Instants are the milliseconds since the epoch that
  \<open>Date.getTime()\<close> returns; the wall clock (\<open>new Date()\<close>, \<open>Date.now()\<close>) is an
  explicit argument \<open>now\<close> of every operation that reads it.
\<close>

type_synonym instant = int

datatype number = Finite real | PosInfinity | NegInfinity | NaN

definition round_half_even :: "real \<Rightarrow> int" where
  "round_half_even z =
     (let f = \<lfloor>z\<rfloor>
      in if z - real_of_int f < 1 / 2 then f
         else if z - real_of_int f > 1 / 2 then f + 1
         else if even f then f else f + 1)"

text \<open>
  The double nearest to a real number.  With \<open>e\<close> the binary exponent of the number, but
  not less than - 1022, the exponent of the smallest normal doubles (below them lie the
  subnormal ones), the doubles around the number are the multiples of 2 to the power
  \<open>e - 52\<close>; what rounds to 2 to the power 1024 or beyond is an infinity.
\<close>

definition binary64 :: "real \<Rightarrow> number" where
  "binary64 y =
     (if y = 0 then Finite 0
      else
        (let e = max \<lfloor>log 2 \<bar>y\<bar>\<rfloor> (- 1022);
             ulp = 2 powi (e - 52);
             z = real_of_int (round_half_even (\<bar>y\<bar> / ulp)) * ulp
         in if z \<ge> 2 powi 1024 then (if y > 0 then PosInfinity else NegInfinity)
            else Finite (if y > 0 then z else - z)))"

definition signed_infinity :: "bool \<Rightarrow> number" where
  "signed_infinity positive = (if positive then PosInfinity else NegInfinity)"

fun Number_isFinite :: "number \<Rightarrow> bool" where
  "Number_isFinite (Finite x) = True"
| "Number_isFinite PosInfinity = False"
| "Number_isFinite NegInfinity = False"
| "Number_isFinite NaN = False"

fun number_plus :: "number \<Rightarrow> number \<Rightarrow> number" where
  "number_plus (Finite a) (Finite b) = binary64 (a + b)"
| "number_plus (Finite a) PosInfinity = PosInfinity"
| "number_plus (Finite a) NegInfinity = NegInfinity"
| "number_plus PosInfinity (Finite b) = PosInfinity"
| "number_plus PosInfinity PosInfinity = PosInfinity"
| "number_plus PosInfinity NegInfinity = NaN"
| "number_plus NegInfinity (Finite b) = NegInfinity"
| "number_plus NegInfinity NegInfinity = NegInfinity"
| "number_plus NegInfinity PosInfinity = NaN"
| "number_plus NaN b = NaN"
| "number_plus a NaN = NaN"

fun number_minus :: "number \<Rightarrow> number \<Rightarrow> number" where
  "number_minus (Finite a) (Finite b) = binary64 (a - b)"
| "number_minus (Finite a) PosInfinity = NegInfinity"
| "number_minus (Finite a) NegInfinity = PosInfinity"
| "number_minus PosInfinity (Finite b) = PosInfinity"
| "number_minus PosInfinity NegInfinity = PosInfinity"
| "number_minus PosInfinity PosInfinity = NaN"
| "number_minus NegInfinity (Finite b) = NegInfinity"
| "number_minus NegInfinity PosInfinity = NegInfinity"
| "number_minus NegInfinity NegInfinity = NaN"
| "number_minus NaN b = NaN"
| "number_minus a NaN = NaN"

fun number_times :: "number \<Rightarrow> number \<Rightarrow> number" where
  "number_times (Finite a) (Finite b) = binary64 (a * b)"
| "number_times NaN b = NaN"
| "number_times a NaN = NaN"
| "number_times (Finite a) b =
     (if a = 0 then NaN else signed_infinity ((a > 0) = (b = PosInfinity)))"
| "number_times a (Finite b) =
     (if b = 0 then NaN else signed_infinity ((b > 0) = (a = PosInfinity)))"
| "number_times a b = signed_infinity (a = b)"

fun number_divide :: "number \<Rightarrow> number \<Rightarrow> number" where
  \<comment> \<open>a divisor zero is read as the positive zero\<close>
  "number_divide (Finite a) (Finite b) =
     (if b = 0 then (if a = 0 then NaN else signed_infinity (a > 0)) else binary64 (a / b))"
| "number_divide NaN b = NaN"
| "number_divide a NaN = NaN"
| "number_divide (Finite a) b = Finite 0"
| "number_divide a (Finite b) = signed_infinity ((b \<ge> 0) = (a = PosInfinity))"
| "number_divide a b = NaN"

fun number_le :: "number \<Rightarrow> number \<Rightarrow> bool" where
  \<comment> \<open>\<open>a <= b\<close>\<close>
  "number_le (Finite a) (Finite b) = (a \<le> b)"
| "number_le NaN b = False"
| "number_le a NaN = False"
| "number_le NegInfinity b = True"
| "number_le a PosInfinity = True"
| "number_le a b = False"

definition number_ge :: "number \<Rightarrow> number \<Rightarrow> bool" where
  \<comment> \<open>\<open>a >= b\<close>\<close>
  "number_ge a b = number_le b a"

definition strict_equal :: "number \<Rightarrow> number \<Rightarrow> bool" where
  \<comment> \<open>\<open>a === b\<close> on numbers: NaN equals nothing\<close>
  "strict_equal a b = (a \<noteq> NaN \<and> a = b)"

fun is_positive :: "number \<Rightarrow> bool" where
  "is_positive (Finite x) = (x > 0)"
| "is_positive PosInfinity = True"
| "is_positive NegInfinity = False"
| "is_positive NaN = False"

fun Math_round :: "number \<Rightarrow> number" where
  \<comment> \<open>\<open>Math.round\<close>: the nearest integer, a tie going up; exact on doubles\<close>
  "Math_round (Finite x) = Finite (real_of_int \<lfloor>x + 1 / 2\<rfloor>)"
| "Math_round x = x"

definition Math_PI :: number where
  \<comment> \<open>the double nearest to \<open>\<pi>\<close>, 3.141592653589793\<close>
  "Math_PI = Finite (884279719003555 / 281474976710656)"

text \<open>
  \<open>Math.sin\<close>, \<open>Math.cos\<close> and \<open>Math.atan2\<close> are implementation-approximated: ECMAScript
  fixes their values at NaN, at the infinities and at zero, and leaves every other value
  to the engine, whose choice is the parameter \<open>m\<close> of the functions that call them.
  \<open>Math.sqrt\<close> is the correctly rounded square root of IEEE 754, as the engines compute
  it.
\<close>

record engine =
  sin_of :: "real \<Rightarrow> real"
  cos_of :: "real \<Rightarrow> real"
  atan2_of :: "number \<Rightarrow> number \<Rightarrow> real"

fun Math_sin :: "engine \<Rightarrow> number \<Rightarrow> number" where
  "Math_sin m (Finite x) = (if x = 0 then Finite 0 else Finite (sin_of m x))"
| "Math_sin m x = NaN"

fun Math_cos :: "engine \<Rightarrow> number \<Rightarrow> number" where
  "Math_cos m (Finite x) = (if x = 0 then Finite 1 else Finite (cos_of m x))"
| "Math_cos m x = NaN"

fun Math_sqrt :: "number \<Rightarrow> number" where
  "Math_sqrt (Finite x) = (if x < 0 then NaN else binary64 (sqrt x))"
| "Math_sqrt PosInfinity = PosInfinity"
| "Math_sqrt x = NaN"

definition Math_atan2 :: "engine \<Rightarrow> number \<Rightarrow> number \<Rightarrow> number" where
  \<comment> \<open>\<open>Math.atan2(y, x)\<close>: a zero \<open>y\<close> with a positive \<open>x\<close> gives zero\<close>
  "Math_atan2 m y x =
     (if y = NaN \<or> x = NaN then NaN
      else if y = Finite 0 \<and> is_positive x then Finite 0
      else Finite (atan2_of m y x))"

section \<open>Rating validation (backend/src/routes/interactions.ts)\<close>

text \<open>
  The route declares the rating of the request body a number, so what \<open>validateRating\<close>
  receives is a double: the one nearest to the decimal of the JSON text.
\<close>

definition validateRating :: "number \<Rightarrow> bool" where
  "validateRating rating =
     (number_ge rating (Finite 1.0) \<and> number_le rating (Finite 5.0)
      \<and> strict_equal (number_divide (Math_round (number_times rating (Finite 10))) (Finite 10))
           rating)"

text \<open>
  The rule as the specification words it: the number lies in [1.0, 5.0] and equals itself
  rounded to one decimal place, that is, the double of the decimal with one fractional
  digit that is nearest to it.
\<close>

fun rounded_to_one_decimal :: "number \<Rightarrow> number" where
  "rounded_to_one_decimal (Finite x) = binary64 (real_of_int (round (x * 10)) / 10)"
| "rounded_to_one_decimal x = x"

section \<open>JavaScript values\<close>

text \<open>
  Strings are lists of 8-bit characters, read as code units below 256; the white space
  of that range (what \<open>\s\<close> and \<open>trim\<close> recognise) is tab, line feed, vertical tab, form
  feed, carriage return, space and no-break space.  A value of TypeScript type \<open>unknown\<close>
  is a number, a string or something else (\<open>null\<close>, \<open>undefined\<close>, an object).
\<close>

datatype jsvalue = JNumber number | JString string | JOther

definition is_space :: "char \<Rightarrow> bool" where
  "is_space c = (of_char c \<in> {9, 10, 11, 12, 13, 32, 160 :: nat})"

definition trim :: "string \<Rightarrow> string" where
  "trim s = rev (dropWhile is_space (rev (dropWhile is_space s)))"

definition lower_char :: "char \<Rightarrow> char" where
  \<comment> \<open>the lower-case mapping of the code units below 256: A-Z and the accented capitals\<close>
  "lower_char c =
     (let n = (of_char c :: nat)
      in if (65 \<le> n \<and> n \<le> 90) \<or> (192 \<le> n \<and> n \<le> 222 \<and> n \<noteq> 215)
         then char_of (n + 32) else c)"

definition toLowerCase :: "string \<Rightarrow> string" where
  "toLowerCase s = map lower_char s"

function collapse_spaces :: "string \<Rightarrow> string" where
  \<comment> \<open>\<open>s.replace(/\s+/g, " ")\<close>: every maximal run of white space becomes one space\<close>
  "collapse_spaces [] = []"
| "collapse_spaces (c # cs) =
     (if is_space c then CHR '' '' # collapse_spaces (dropWhile is_space cs)
      else c # collapse_spaces cs)"
  by pat_completeness auto
termination
  by (relation "measure length") (auto simp: length_dropWhile_le less_Suc_eq_le)

text \<open>
  \<open>Array.prototype.sort\<close> with a comparator is a stable sort: \<open>b\<close> goes before \<open>a\<close>
  only when the comparator's value on \<open>(a, b)\<close> is positive, and a value of NaN counts
  as zero.  It is modelled by the stable insertion sort; for a consistent comparator
  every stable sort gives this result.
\<close>

fun insert_sorted :: "('a \<Rightarrow> 'a \<Rightarrow> number) \<Rightarrow> 'a \<Rightarrow> 'a list \<Rightarrow> 'a list" where
  "insert_sorted cmp x [] = [x]"
| "insert_sorted cmp x (y # ys) =
     (if is_positive (cmp x y) then y # insert_sorted cmp x ys else x # y # ys)"

definition Array_sort :: "('a \<Rightarrow> 'a \<Rightarrow> number) \<Rightarrow> 'a list \<Rightarrow> 'a list" where
  "Array_sort cmp xs = foldr (insert_sorted cmp) xs []"

section \<open>Coordinates (utils/geo.ts)\<close>

text \<open>
  The type \<open>LatLng\<close> promises two numbers.  At run time a value of that type is an object
  that is read through its properties \<open>lat\<close> and \<open>lng\<close>, each a number, \<open>null\<close> or
  \<open>undefined\<close>, or it is a function, whose \<open>lat\<close> and \<open>lng\<close> are \<open>undefined\<close>.  In arithmetic
  \<open>null\<close> converts to 0 and \<open>undefined\<close> to NaN.
\<close>

datatype field = Num number | Null | Undefined

record LatLng =
  lat :: field
  lng :: field

datatype coords = PlainObject LatLng | BuiltinFunction

fun coords_lat :: "coords \<Rightarrow> field" where
  \<comment> \<open>\<open>coords.lat\<close>\<close>
  "coords_lat (PlainObject c) = lat c"
| "coords_lat BuiltinFunction = Undefined"

fun coords_lng :: "coords \<Rightarrow> field" where
  \<comment> \<open>\<open>coords.lng\<close>\<close>
  "coords_lng (PlainObject c) = lng c"
| "coords_lng BuiltinFunction = Undefined"

fun ToNumber :: "field \<Rightarrow> number" where
  "ToNumber (Num n) = n"
| "ToNumber Null = Finite 0"
| "ToNumber Undefined = NaN"

fun field_value :: "field \<Rightarrow> jsvalue" where
  "field_value (Num n) = JNumber n"
| "field_value Null = JOther"
| "field_value Undefined = JOther"

definition is_coordinate :: "LatLng \<Rightarrow> bool" where
  \<comment> \<open>both properties are numbers\<close>
  "is_coordinate c =
     (case lat c of
        Num a \<Rightarrow> (case lng c of Num b \<Rightarrow> True | Null \<Rightarrow> False | Undefined \<Rightarrow> False)
      | Null \<Rightarrow> False
      | Undefined \<Rightarrow> False)"

text \<open>
  The table \<open>CITY_FALLBACK_COORDS\<close> is an object literal with nine properties of its own.
  Indexing it with a string that is none of them reads the property of that name of
  \<open>Object.prototype\<close>: \<open>__proto__\<close> is \<open>Object.prototype\<close> itself, an object without \<open>lat\<close>
  and \<open>lng\<close>, and the other names are functions (\<open>constructor\<close> is the function
  \<open>Object\<close>); every other string reads \<open>undefined\<close>.
\<close>

definition city_table :: "(string \<times> LatLng) list" where
  "city_table =
     [(''ljubljana'', \<lparr>lat = Num (binary64 46.0569), lng = Num (binary64 14.5058)\<rparr>),
      (''maribor'', \<lparr>lat = Num (binary64 46.5547), lng = Num (binary64 15.6459)\<rparr>),
      (''celje'', \<lparr>lat = Num (binary64 46.2397), lng = Num (binary64 15.2677)\<rparr>),
      (''kranj'', \<lparr>lat = Num (binary64 46.2389), lng = Num (binary64 14.3555)\<rparr>),
      (''koper'', \<lparr>lat = Num (binary64 45.5481), lng = Num (binary64 13.7301)\<rparr>),
      (''novo mesto'', \<lparr>lat = Num (binary64 45.8011), lng = Num (binary64 15.1691)\<rparr>),
      (''ptuj'', \<lparr>lat = Num (binary64 46.4203), lng = Num (binary64 15.8697)\<rparr>),
      (''murska sobota'', \<lparr>lat = Num (binary64 46.6611), lng = Num (binary64 16.1664)\<rparr>),
      (''slovenia'', \<lparr>lat = Num (binary64 46.1512), lng = Num (binary64 14.9955)\<rparr>)]"

definition Object_prototype :: "string \<Rightarrow> coords option" where
  "Object_prototype key =
     (if key = ''__proto__'' then Some (PlainObject \<lparr>lat = Undefined, lng = Undefined\<rparr>)
      else if key \<in> set [''constructor'', ''hasOwnProperty'', ''isPrototypeOf'',
                          ''propertyIsEnumerable'', ''toLocaleString'', ''toString'', ''valueOf'',
                          ''__defineGetter__'', ''__defineSetter__'', ''__lookupGetter__'',
                          ''__lookupSetter__'']
      then Some BuiltinFunction
      else None)"

definition CITY_FALLBACK_COORDS :: "string \<Rightarrow> coords option" where
  \<comment> \<open>\<open>CITY_FALLBACK_COORDS[key]\<close>; \<open>None\<close> is \<open>undefined\<close>\<close>
  "CITY_FALLBACK_COORDS key =
     (case map_of city_table key of
        Some c \<Rightarrow> Some (PlainObject c)
      | None \<Rightarrow> Object_prototype key)"

definition slovenia :: LatLng where
  \<comment> \<open>the entry \<open>slovenia\<close> of the table\<close>
  "slovenia = \<lparr>lat = Num (binary64 46.1512), lng = Num (binary64 14.9955)\<rparr>"

definition normalizeCityKey :: "string option \<Rightarrow> string" where
  "normalizeCityKey city =
     collapse_spaces (toLowerCase (trim (case city of None \<Rightarrow> [] | Some c \<Rightarrow> c)))"

definition coordsForCity :: "string option \<Rightarrow> coords option" where
  \<comment> \<open>every value the table yields is an object or a function, hence truthy\<close>
  "coordsForCity city =
     (let key = normalizeCityKey city
      in if key \<noteq> [] \<and> CITY_FALLBACK_COORDS key \<noteq> None then CITY_FALLBACK_COORDS key else None)"

text \<open>\<open>parseFloat\<close> is a parameter \<open>pf\<close> of the functions that call it.\<close>

definition toFiniteNumber :: "(string \<Rightarrow> number) \<Rightarrow> jsvalue \<Rightarrow> number" where
  "toFiniteNumber pf v =
     (case v of
        JNumber n \<Rightarrow> (if Number_isFinite n then n else NaN)
      | JString s \<Rightarrow> (let parsed = pf s in if Number_isFinite parsed then parsed else NaN)
      | JOther \<Rightarrow> NaN)"

text \<open>
  A row of the feed, with the columns the feed logic reads; \<open>lat\<close> and \<open>lng\<close> have type
  \<open>unknown\<close> in the source.
\<close>

datatype event_status = Draft | Published | Cancelled

record feed_event =
  fe_id :: string
  fe_title :: string
  fe_region :: string
  fe_city :: "string option"
  fe_lat :: jsvalue
  fe_lng :: jsvalue
  fe_starts_at :: instant
  fe_ends_at :: instant
  fe_genre :: string
  fe_status :: event_status
  fe_organizer_id :: string

definition resolveEventCoords :: "(string \<Rightarrow> number) \<Rightarrow> feed_event \<Rightarrow> coords option" where
  "resolveEventCoords pf event =
     (let lat' = toFiniteNumber pf (fe_lat event);
          lng' = toFiniteNumber pf (fe_lng event)
      in if Number_isFinite lat' \<and> Number_isFinite lng'
         then Some (PlainObject \<lparr>lat = Num lat', lng = Num lng'\<rparr>)
         else (case coordsForCity (fe_city event) of
                 Some cityCoords \<Rightarrow> Some cityCoords
               | None \<Rightarrow> None))"

section \<open>Great-circle distance and the ranked feed (home screen)\<close>

definition calculateDistance :: "engine \<Rightarrow> number \<Rightarrow> number \<Rightarrow> number \<Rightarrow> number \<Rightarrow> number" where
  "calculateDistance m lat1 lng1 lat2 lng2 =
     (let R = Finite 6371;
          dLat = number_divide (number_times (number_minus lat2 lat1) Math_PI) (Finite 180);
          dLng = number_divide (number_times (number_minus lng2 lng1) Math_PI) (Finite 180);
          a = number_plus
                (number_times (Math_sin m (number_divide dLat (Finite 2)))
                              (Math_sin m (number_divide dLat (Finite 2))))
                (number_times
                   (number_times
                      (number_times
                         (Math_cos m (number_divide (number_times lat1 Math_PI) (Finite 180)))
                         (Math_cos m (number_divide (number_times lat2 Math_PI) (Finite 180))))
                      (Math_sin m (number_divide dLng (Finite 2))))
                   (Math_sin m (number_divide dLng (Finite 2))));
          c = number_times (Finite 2)
                (Math_atan2 m (Math_sqrt a) (Math_sqrt (number_minus (Finite 1) a)))
      in number_times R c)"

record ranked_event =
  event :: feed_event
  distance :: "number option"

definition withDistance :: "engine \<Rightarrow> (string \<Rightarrow> number) \<Rightarrow> coords \<Rightarrow> feed_event \<Rightarrow> ranked_event" where
  \<comment> \<open>the body of the \<open>map\<close> in \<open>fetchEvents\<close>; \<open>distance: undefined\<close> is \<open>None\<close>\<close>
  "withDistance m pf location ev =
     (case resolveEventCoords pf ev of
        None \<Rightarrow> \<lparr>event = ev, distance = None\<rparr>
      | Some coords \<Rightarrow>
          \<lparr>event = ev\<lparr>fe_lat := field_value (coords_lat coords),
                       fe_lng := field_value (coords_lng coords)\<rparr>,
           distance = Some (calculateDistance m
                              (ToNumber (coords_lat location)) (ToNumber (coords_lng location))
                              (ToNumber (coords_lat coords)) (ToNumber (coords_lng coords)))\<rparr>)"

definition orInfinity :: "number option \<Rightarrow> number" where
  \<comment> \<open>\<open>d ?? Number.POSITIVE_INFINITY\<close>\<close>
  "orInfinity d = (case d of None \<Rightarrow> PosInfinity | Some x \<Rightarrow> x)"

definition compareDistance :: "ranked_event \<Rightarrow> ranked_event \<Rightarrow> number" where
  "compareDistance a b = number_minus (orInfinity (distance a)) (orInfinity (distance b))"

definition rankEvents ::
  "engine \<Rightarrow> (string \<Rightarrow> number) \<Rightarrow> coords \<Rightarrow> feed_event list \<Rightarrow> ranked_event list" where
  "rankEvents m pf location data =
     Array_sort compareDistance (map (withDistance m pf location) data)"

section \<open>Viewer location (home screen, \<open>loadLocation\<close>)\<close>

text \<open>
  The component's state: the \<open>locationLoadedRef\<close> flag, the \<open>location\<close> state variable
  and the two cells of AsyncStorage that \<open>loadLocation\<close> touches.  The app writes the cell
  under \<open>LOCATION_STORAGE_KEY\<close> only as \<open>JSON.stringify\<close> of a value of type \<open>LatLng\<close>.  A
  text is modelled by what \<open>const { lat, lng } = JSON.parse(text)\<close> makes of it: the two
  properties it reads, or an exception; \<open>JSON.stringify\<close> writes a number that is not
  finite as \<open>null\<close>, leaves out a property that is \<open>undefined\<close>, and answers \<open>undefined\<close>
  for a function.  An absent cell and an empty text are both \<open>None\<close>.
\<close>

datatype stored_text = Text LatLng | Malformed

fun JSON_property :: "field \<Rightarrow> field" where
  \<comment> \<open>a property after \<open>JSON.stringify\<close> and \<open>JSON.parse\<close>\<close>
  "JSON_property (Num n) = (if Number_isFinite n then Num n else Null)"
| "JSON_property Null = Null"
| "JSON_property Undefined = Undefined"

definition JSON_LatLng :: "LatLng \<Rightarrow> LatLng" where
  "JSON_LatLng c = \<lparr>lat = JSON_property (lat c), lng = JSON_property (lng c)\<rparr>"

fun JSON_stringify :: "coords \<Rightarrow> stored_text option" where
  \<comment> \<open>\<open>None\<close> is \<open>undefined\<close>\<close>
  "JSON_stringify (PlainObject c) = Some (Text (JSON_LatLng c))"
| "JSON_stringify BuiltinFunction = None"

text \<open>
  What the outside world answers is the record \<open>location_io\<close>: whether a storage call
  rejects, the permission status (or \<open>None\<close> when the request rejects), the device
  position (or \<open>None\<close> when \<open>getCurrentPositionAsync\<close> rejects), and what the store keeps
  in the cell when \<open>setItem\<close> is handed \<open>undefined\<close> and does not reject.
\<close>

record feed_state =
  locationLoadedRef :: bool
  location :: "coords option"
  stored_location :: "stored_text option"
  selected_city :: "string option"

record device_coords =
  latitude :: number
  longitude :: number

record location_io =
  getItem_location_rejects :: bool
  permission :: "string option"
  position :: "device_coords option"
  getItem_city_rejects :: bool
  setItem_rejects :: bool
  setItem_undefined :: "stored_text option"

definition persisted_coordinate :: "feed_state \<Rightarrow> LatLng option" where
  \<comment> \<open>the coordinate that the cell holds\<close>
  "persisted_coordinate st =
     (case stored_location st of
        None \<Rightarrow> None
      | Some Malformed \<Rightarrow> None
      | Some (Text c) \<Rightarrow> Some c)"

definition device_coordinate :: "location_io \<Rightarrow> LatLng option" where
  \<comment> \<open>the freshly obtained device coordinate: the position, when permission is granted\<close>
  "device_coordinate io =
     (if permission io = Some ''granted''
      then map_option (\<lambda>c. \<lparr>lat = Num (latitude c), lng = Num (longitude c)\<rparr>) (position io)
      else None)"

definition all_calls_succeed :: "location_io \<Rightarrow> bool" where
  \<comment> \<open>no storage call rejects, the permission request answers, and the position is
      obtained when permission is granted\<close>
  "all_calls_succeed io =
     (\<not> getItem_location_rejects io \<and> \<not> getItem_city_rejects io \<and> \<not> setItem_rejects io
      \<and> permission io \<noteq> None
      \<and> (if permission io = Some ''granted'' then position io \<noteq> None else True))"

definition setLocation_and_store :: "location_io \<Rightarrow> coords \<Rightarrow> feed_state \<Rightarrow> feed_state + feed_state" where
  \<comment> \<open>\<open>setLocation(coords); await AsyncStorage.setItem(LOCATION_STORAGE_KEY,
      JSON.stringify(coords))\<close>; \<open>Inl\<close> is the state in which the exception is thrown\<close>
  "setLocation_and_store io coords st =
     (let st' = st\<lparr>location := Some coords\<rparr>
      in if setItem_rejects io then Inl st'
         else case JSON_stringify coords of
                Some text \<Rightarrow> Inr (st'\<lparr>stored_location := Some text\<rparr>)
              | None \<Rightarrow> Inr (st'\<lparr>stored_location := setItem_undefined io\<rparr>))"

definition loadLocation_try :: "location_io \<Rightarrow> feed_state \<Rightarrow> feed_state + feed_state" where
  \<comment> \<open>the body of the \<open>try\<close> block, after the flag is set\<close>
  "loadLocation_try io st =
     (if getItem_location_rejects io then Inl st
      else case stored_location st of
        Some Malformed \<Rightarrow> Inl st
      | Some (Text c) \<Rightarrow> Inr (st\<lparr>location := Some (PlainObject c)\<rparr>)
      | None \<Rightarrow>
         (case permission io of
            None \<Rightarrow> Inl st
          | Some status \<Rightarrow>
             if status = ''granted'' then
               (case position io of
                  None \<Rightarrow> Inl st
                | Some loc \<Rightarrow>
                    setLocation_and_store io
                      (PlainObject \<lparr>lat = Num (latitude loc), lng = Num (longitude loc)\<rparr>) st)
             else if getItem_city_rejects io then Inl st
             else
               (let selectedKey = normalizeCityKey (selected_city st)
                in case CITY_FALLBACK_COORDS selectedKey of
                     Some coords \<Rightarrow>
                       if selectedKey \<noteq> [] then setLocation_and_store io coords st
                       else setLocation_and_store io (PlainObject slovenia) st
                   | None \<Rightarrow> setLocation_and_store io (PlainObject slovenia) st)))"

definition loadLocation :: "location_io \<Rightarrow> feed_state \<Rightarrow> feed_state" where
  "loadLocation io st =
     (if locationLoadedRef st then st
      else case loadLocation_try io (st\<lparr>locationLoadedRef := True\<rparr>) of
             Inr st' \<Rightarrow> st'
           | Inl st' \<Rightarrow> st'\<lparr>location := Some (PlainObject slovenia)\<rparr>)"

text \<open>
  The resolution chain as the specification words it: the persisted coordinate, else the
  device coordinate, else the entry of the normalized selected city in the table of
  cities, else the country fallback; the first that exists wins.
\<close>

definition spec_resolution_chain :: "LatLng option \<Rightarrow> LatLng option \<Rightarrow> string option \<Rightarrow> LatLng" where
  "spec_resolution_chain persisted device selectedCity =
     (case persisted of
        Some c \<Rightarrow> c
      | None \<Rightarrow>
         (case device of
            Some c \<Rightarrow> c
          | None \<Rightarrow>
             (case map_of city_table (normalizeCityKey selectedCity) of
                Some c \<Rightarrow> c
              | None \<Rightarrow> slovenia)))"

section \<open>The feed query of the home screen (\<open>fetchEvents\<close>)\<close>

text \<open>
  The query the client sends for the feed.  \<open>ilike\<close> is the database's case-insensitive
  pattern match, a parameter.  The order among rows with equal \<open>starts_at\<close> is the
  database's choice; the model keeps the table's order among them.
\<close>

record feed_filters =
  organizerId :: "string option"
  selectedRegion :: string
  selectedGenre :: string
  searchQuery :: string

definition feed_query ::
  "(string \<Rightarrow> string \<Rightarrow> bool) \<Rightarrow> instant \<Rightarrow> feed_filters \<Rightarrow> feed_event list \<Rightarrow> feed_event list" where
  "feed_query ilike now f table =
     (let organizerFilterId = (case organizerId f of None \<Rightarrow> [] | Some s \<Rightarrow> s);
          q0 = filter (\<lambda>e. fe_status e = Published) table;
          q1 = (if organizerFilterId \<noteq> []
                then sort_key (\<lambda>e. - fe_starts_at e)
                       (filter (\<lambda>e. fe_organizer_id e = organizerFilterId) q0)
                else sort_key fe_starts_at (filter (\<lambda>e. fe_ends_at e \<ge> now) q0));
          q2 = (if organizerFilterId = [] \<and> selectedRegion f \<noteq> []
                then filter (\<lambda>e. fe_region e = selectedRegion f) q1 else q1);
          q3 = (if organizerFilterId = [] \<and> selectedGenre f \<noteq> []
                then filter (\<lambda>e. fe_genre e = selectedGenre f) q2 else q2);
          q4 = (if organizerFilterId = [] \<and> searchQuery f \<noteq> []
                then filter (\<lambda>e. ilike (fe_title e) (''%'' @ searchQuery f @ ''%'')) q3 else q3)
      in q4)"


section \<open>The database (backend/src/db/schema.ts)\<close>

text \<open>
  Each table is the list of its rows, with the columns the modelled routes read or write.
  Numeric columns hold the number their text denotes.  The constraints of the schema
  (primary keys, the unique indexes on (event, user), foreign keys, the checks) are
  enforced by the insert operations, which fail as the database does.
\<close>

type_synonym user_id = string
type_synonym uuid = string

datatype role = User | Organizer | Admin

record profile =
  profile_id :: user_id
  profile_username :: string
  profile_role :: role
  profile_avatarUrl :: "string option"

record event_row =
  ev_id :: uuid
  ev_organizerId :: user_id
  ev_title :: string
  ev_description :: "string option"
  ev_region :: string
  ev_city :: string
  ev_lat :: real
  ev_lng :: real
  ev_startsAt :: instant
  ev_endsAt :: instant
  ev_genre :: string
  ev_status :: event_status
  ev_createdAt :: instant

record going_row =
  going_id :: uuid
  going_eventId :: uuid
  going_userId :: user_id
  going_createdAt :: instant

record comment_row =
  comment_id :: uuid
  comment_eventId :: uuid
  comment_userId :: user_id
  comment_body :: string
  comment_createdAt :: instant

record image_row =
  image_id :: uuid
  image_eventId :: uuid
  image_userId :: user_id
  image_imageUrl :: string
  image_createdAt :: instant

record rating_row =
  rating_id :: uuid
  rating_eventId :: uuid
  rating_userId :: user_id
  rating_value :: real
  rating_createdAt :: instant

record database =
  profiles :: "profile list"
  events :: "event_row list"
  eventGoing :: "going_row list"
  eventComments :: "comment_row list"
  eventImages :: "image_row list"
  eventRatings :: "rating_row list"

datatype db_error = UniqueViolation | ForeignKeyViolation | CheckViolation

definition references_ok :: "uuid \<Rightarrow> user_id \<Rightarrow> database \<Rightarrow> bool" where
  \<comment> \<open>the two foreign keys every child table has: the event and the user's profile\<close>
  "references_ok eid uid d =
     (list_ex (\<lambda>e. ev_id e = eid) (events d) \<and> list_ex (\<lambda>p. profile_id p = uid) (profiles d))"

definition insert_eventComments :: "comment_row \<Rightarrow> database \<Rightarrow> db_error + database" where
  "insert_eventComments c d =
     (if list_ex (\<lambda>x. comment_id x = comment_id c) (eventComments d) then Inl UniqueViolation
      else if \<not> references_ok (comment_eventId c) (comment_userId c) d then Inl ForeignKeyViolation
      else Inr (d\<lparr>eventComments := eventComments d @ [c]\<rparr>))"

definition insert_eventImages :: "image_row \<Rightarrow> database \<Rightarrow> db_error + database" where
  "insert_eventImages i d =
     (if list_ex (\<lambda>x. image_id x = image_id i) (eventImages d) then Inl UniqueViolation
      else if \<not> references_ok (image_eventId i) (image_userId i) d then Inl ForeignKeyViolation
      else Inr (d\<lparr>eventImages := eventImages d @ [i]\<rparr>))"

definition insert_eventRatings :: "rating_row \<Rightarrow> database \<Rightarrow> db_error + database" where
  \<comment> \<open>the second test is the unique index \<open>event_ratings_event_user_unique\<close>, the last
      the check \<open>rating_range\<close>\<close>
  "insert_eventRatings r d =
     (if list_ex (\<lambda>x. rating_id x = rating_id r) (eventRatings d) then Inl UniqueViolation
      else if list_ex (\<lambda>x. rating_eventId x = rating_eventId r \<and> rating_userId x = rating_userId r)
                (eventRatings d) then Inl UniqueViolation
      else if \<not> references_ok (rating_eventId r) (rating_userId r) d then Inl ForeignKeyViolation
      else if \<not> (rating_value r \<ge> 1.0 \<and> rating_value r \<le> 5.0) then Inl CheckViolation
      else Inr (d\<lparr>eventRatings := eventRatings d @ [r]\<rparr>))"

definition delete_events :: "uuid \<Rightarrow> database \<Rightarrow> database" where
  \<comment> \<open>\<open>delete from events where id = ...\<close>; the four child tables cascade\<close>
  "delete_events eid d =
     d\<lparr>events := filter (\<lambda>e. ev_id e \<noteq> eid) (events d),
       eventGoing := filter (\<lambda>g. going_eventId g \<noteq> eid) (eventGoing d),
       eventComments := filter (\<lambda>c. comment_eventId c \<noteq> eid) (eventComments d),
       eventImages := filter (\<lambda>i. image_eventId i \<noteq> eid) (eventImages d),
       eventRatings := filter (\<lambda>r. rating_eventId r \<noteq> eid) (eventRatings d)\<rparr>"

section \<open>Replies of the routes\<close>

text \<open>
  A route answers with a payload, with a status code and an error message
  (\<open>reply.status(c).send({ error: m })\<close>), or, when an exception of the database escapes
  the handler, with the framework's error reply.  It also leaves a database behind.
\<close>

datatype failure = Status nat string | Unhandled db_error

type_synonym 'a reply = "(failure + 'a) \<times> database"

section \<open>Interaction routes (backend/src/routes/interactions.ts)\<close>

definition INTERACTION_WINDOW_HOURS :: int where
  "INTERACTION_WINDOW_HOURS = 7 * 24"

definition MAX_IMAGES_PER_USER :: nat where
  "MAX_IMAGES_PER_USER = 5"

definition MAX_COMMENT_LENGTH :: nat where
  "MAX_COMMENT_LENGTH = 300"

definition isInInteractionWindow :: "instant \<Rightarrow> instant \<Rightarrow> bool" where
  "isInInteractionWindow now eventEndsAt =
     (let endTime = eventEndsAt;
          windowEndTime = endTime + INTERACTION_WINDOW_HOURS * 60 * 60 * 1000
      in now \<ge> endTime \<and> now \<le> windowEndTime)"

definition startsWith :: "string \<Rightarrow> string \<Rightarrow> bool" where
  "startsWith s p = (take (length p) s = p)"

definition match_url :: "string \<Rightarrow> string option" where
  \<comment> \<open>a match of \<open>https?:\/\/[^\s]+\<close> at the start of \<open>s\<close>: what follows the match\<close>
  "match_url s =
     (if startsWith s ''http'' then
        (let r = drop 4 s;
             r' = (if startsWith r ''s'' then drop 1 r else r)
         in if startsWith r' ''://'' \<and> takeWhile (\<lambda>c. \<not> is_space c) (drop 3 r') \<noteq> []
            then Some (dropWhile (\<lambda>c. \<not> is_space c) (drop 3 r'))
            else None)
      else None)"

function strip_urls :: "string \<Rightarrow> string" where
  \<comment> \<open>\<open>body.replace(/https?:\/\/[^\s]+/g, '')\<close>, scanning from the left\<close>
  "strip_urls [] = []"
| "strip_urls (c # cs) =
     (case match_url (c # cs) of
        Some rest \<Rightarrow> strip_urls rest
      | None \<Rightarrow> c # strip_urls cs)"
  by pat_completeness auto
termination
proof (relation "measure length")
  show "wf (measure length)" by simp
next
  fix c :: char and cs rest :: string
  assume "match_url (c # cs) = Some rest"
  then obtain t where t: "rest = dropWhile (\<lambda>c. \<not> is_space c) t" "length t < length (c # cs)"
    by (auto simp: match_url_def Let_def startsWith_def split: if_splits)
  have "length rest \<le> length t" unfolding t by (rule length_dropWhile_le)
  with t show "(rest, c # cs) \<in> measure length" by simp
next
  fix c :: char and cs :: string
  show "(cs, c # cs) \<in> measure length" by simp
qed

definition sanitizeComment :: "string \<Rightarrow> string" where
  "sanitizeComment body = trim (strip_urls body)"

definition find_event :: "uuid \<Rightarrow> database \<Rightarrow> event_row option" where
  \<comment> \<open>\<open>const [event] = await db.select().from(events).where(eq(events.id, id))\<close>\<close>
  "find_event eid d = find (\<lambda>e. ev_id e = eid) (events d)"

definition find_going :: "uuid \<Rightarrow> user_id \<Rightarrow> database \<Rightarrow> going_row option" where
  "find_going eid uid d =
     find (\<lambda>g. going_eventId g = eid \<and> going_userId g = uid) (eventGoing d)"

definition find_profile :: "user_id \<Rightarrow> database \<Rightarrow> profile option" where
  "find_profile uid d = find (\<lambda>p. profile_id p = uid) (profiles d)"

definition delete_going :: "user_id option \<Rightarrow> uuid \<Rightarrow> database \<Rightarrow> unit reply" where
  \<comment> \<open>DELETE /api/events/:id/going; the handler reads neither the event nor the clock\<close>
  "delete_going session eid d =
     (case session of
        None \<Rightarrow> (Inl (Status 401 ''Unauthorized''), d)
      | Some uid \<Rightarrow>
         (Inr (),
          d\<lparr>eventGoing :=
              filter (\<lambda>g. \<not> (going_eventId g = eid \<and> going_userId g = uid)) (eventGoing d)\<rparr>))"

definition post_comment ::
  "instant \<Rightarrow> uuid \<Rightarrow> user_id option \<Rightarrow> uuid \<Rightarrow> string \<Rightarrow> database
     \<Rightarrow> (comment_row \<times> profile option) reply" where
  \<comment> \<open>POST /api/events/:id/comments\<close>
  "post_comment now new_id session eid body d =
     (case session of
        None \<Rightarrow> (Inl (Status 401 ''Unauthorized''), d)
      | Some uid \<Rightarrow>
         (case find_event eid d of
            None \<Rightarrow> (Inl (Status 404 ''Event not found''), d)
          | Some ev \<Rightarrow>
             (case find_going eid uid d of
                None \<Rightarrow> (Inl (Status 403 ''Must be going to comment''), d)
              | Some isGoing \<Rightarrow>
                 if \<not> isInInteractionWindow now (ev_endsAt ev)
                 then (Inl (Status 403 ''Can only comment within 7 days after event ends''), d)
                 else
                   (let sanitized = sanitizeComment body
                    in if length sanitized = 0
                       then (Inl (Status 400 ''Comment cannot be empty''), d)
                       else if length sanitized > MAX_COMMENT_LENGTH
                       then (Inl (Status 400 ''Comment must be max 300 characters''), d)
                       else
                         (let c = \<lparr>comment_id = new_id, comment_eventId = eid,
                                   comment_userId = uid, comment_body = sanitized,
                                   comment_createdAt = now\<rparr>
                          in case insert_eventComments c d of
                               Inl err \<Rightarrow> (Inl (Unhandled err), d)
                             | Inr d' \<Rightarrow> (Inr (c, find_profile uid d'), d'))))))"

text \<open>
  An upload carries no file, a file over the size limit, or a file with a name; the
  object store answers the upload and the signing with a URL, or one of the two throws
  (\<open>None\<close>).
\<close>

datatype upload = NoFile | FileTooLarge | FileData string

definition post_image ::
  "instant \<Rightarrow> uuid \<Rightarrow> user_id option \<Rightarrow> uuid \<Rightarrow> upload \<Rightarrow> string option \<Rightarrow> database
     \<Rightarrow> image_row reply" where
  \<comment> \<open>POST /api/events/:id/images\<close>
  "post_image now new_id session eid file stored_url d =
     (case session of
        None \<Rightarrow> (Inl (Status 401 ''Unauthorized''), d)
      | Some uid \<Rightarrow>
         (case find_event eid d of
            None \<Rightarrow> (Inl (Status 404 ''Event not found''), d)
          | Some ev \<Rightarrow>
             (case find_going eid uid d of
                None \<Rightarrow> (Inl (Status 403 ''Must be going to upload images''), d)
              | Some isGoing \<Rightarrow>
                 if \<not> isInInteractionWindow now (ev_endsAt ev)
                 then (Inl (Status 403 ''Can only upload images within 7 days after event ends''), d)
                 else
                   (let userImageCount =
                          length (filter (\<lambda>i. image_eventId i = eid \<and> image_userId i = uid)
                                    (eventImages d))
                    in if userImageCount \<ge> MAX_IMAGES_PER_USER
                       then (Inl (Status 403 ''Max 5 images per user per event''), d)
                       else
                         (case file of
                            NoFile \<Rightarrow> (Inl (Status 400 ''No file provided''), d)
                          | FileTooLarge \<Rightarrow> (Inl (Status 413 ''File too large (max 5MB)''), d)
                          | FileData filename \<Rightarrow>
                             (case stored_url of
                                None \<Rightarrow> (Inl (Status 500 ''Failed to upload image''), d)
                              | Some url \<Rightarrow>
                                 (let i = \<lparr>image_id = new_id, image_eventId = eid,
                                           image_userId = uid, image_imageUrl = url,
                                           image_createdAt = now\<rparr>
                                  in case insert_eventImages i d of
                                       Inl err \<Rightarrow> (Inl (Status 500 ''Failed to upload image''), d)
                                     | Inr d' \<Rightarrow> (Inr i, d'))))))))"

text \<open>
  The handler stores \<open>rating.toString()\<close> in a column of type \<open>numeric(2,1)\<close>.  The text of
  a double is the shortest decimal that reads back as that double; for a rating that has
  passed \<open>validateRating\<close> it is the decimal with one fractional digit nearest to the
  double, which the column holds as it is.  No other number reaches the insert.
\<close>

definition numeric_2_1 :: "number \<Rightarrow> real" where
  "numeric_2_1 rating =
     (case rating of
        Finite x \<Rightarrow> real_of_int \<lfloor>x * 10 + 1 / 2\<rfloor> / 10
      | PosInfinity \<Rightarrow> 0
      | NegInfinity \<Rightarrow> 0
      | NaN \<Rightarrow> 0)"

definition post_rating ::
  "instant \<Rightarrow> uuid \<Rightarrow> user_id option \<Rightarrow> uuid \<Rightarrow> number \<Rightarrow> database \<Rightarrow> rating_row reply" where
  \<comment> \<open>POST /api/events/:id/ratings; any failure of the insert is answered 409\<close>
  "post_rating now new_id session eid rating d =
     (case session of
        None \<Rightarrow> (Inl (Status 401 ''Unauthorized''), d)
      | Some uid \<Rightarrow>
         if \<not> validateRating rating
         then (Inl (Status 400 ''Rating must be between 1.0 and 5.0 with 1 decimal''), d)
         else
           (case find_event eid d of
              None \<Rightarrow> (Inl (Status 404 ''Event not found''), d)
            | Some ev \<Rightarrow>
               (case find_going eid uid d of
                  None \<Rightarrow> (Inl (Status 403 ''Must be going to rate''), d)
                | Some isGoing \<Rightarrow>
                   if \<not> isInInteractionWindow now (ev_endsAt ev)
                   then (Inl (Status 403 ''Can only rate within 7 days after event ends''), d)
                   else
                     (let r = \<lparr>rating_id = new_id, rating_eventId = eid, rating_userId = uid,
                               rating_value = numeric_2_1 rating, rating_createdAt = now\<rparr>
                      in case insert_eventRatings r d of
                           Inl err \<Rightarrow> (Inl (Status 409 ''Already rated this event''), d)
                         | Inr d' \<Rightarrow> (Inr r, d')))))"

text \<open>A rating submission, and a sequence of them run one after the other.\<close>

record submission =
  sub_now :: instant
  sub_new_id :: uuid
  sub_session :: "user_id option"
  sub_event :: uuid
  sub_rating :: number

definition submit :: "submission \<Rightarrow> database \<Rightarrow> database" where
  "submit s d =
     snd (post_rating (sub_now s) (sub_new_id s) (sub_session s) (sub_event s) (sub_rating s) d)"

definition submit_all :: "submission list \<Rightarrow> database \<Rightarrow> database" where
  "submit_all ss d = fold submit ss d"

definition ratings_of :: "uuid \<Rightarrow> user_id \<Rightarrow> database \<Rightarrow> rating_row list" where
  "ratings_of eid uid d =
     filter (\<lambda>r. rating_eventId r = eid \<and> rating_userId r = uid) (eventRatings d)"

definition ratings_unique :: "database \<Rightarrow> bool" where
  "ratings_unique d = distinct (map (\<lambda>r. (rating_eventId r, rating_userId r)) (eventRatings d))"


section \<open>Event routes (backend/src/routes/events.ts)\<close>

text \<open>
  GET /api/events.  The query string carries optional texts; a text is truthy when it is
  present and not empty.  \<open>parseFloat\<close> (\<open>pf\<close>) and the database's \<open>ilike\<close> are
  parameters.  The reply leaves out the columns that are only passed through (lineup,
  poster, address, age label, price, ticket URL) and the flag \<open>isToday\<close>, which depends
  on the time zone of the server.
\<close>

record events_query =
  q_lat :: "string option"
  q_lng :: "string option"
  q_region :: "string option"
  q_city :: "string option"
  q_genre :: "string option"
  q_search :: "string option"

definition truthy :: "string option \<Rightarrow> bool" where
  "truthy v = (case v of None \<Rightarrow> False | Some s \<Rightarrow> s \<noteq> [])"

definition text_of :: "string option \<Rightarrow> string" where
  "text_of v = (case v of None \<Rightarrow> [] | Some s \<Rightarrow> s)"

definition whereConditions ::
  "(string \<Rightarrow> string \<Rightarrow> bool) \<Rightarrow> events_query \<Rightarrow> (event_row \<Rightarrow> bool) list" where
  \<comment> \<open>a NULL description makes its \<open>ilike\<close> unknown, which \<open>or\<close> and \<open>where\<close> read as false\<close>
  "whereConditions ilike q =
     [\<lambda>e. ev_status e = Published]
     @ (if truthy (q_genre q) then [\<lambda>e. ev_genre e = text_of (q_genre q)] else [])
     @ (if truthy (q_region q) then [\<lambda>e. ev_region e = text_of (q_region q)] else [])
     @ (if truthy (q_city q) then [\<lambda>e. ev_city e = text_of (q_city q)] else [])
     @ (if truthy (q_search q)
        then [\<lambda>e. ilike (ev_title e) (''%'' @ text_of (q_search q) @ ''%'')
                  \<or> (case ev_description e of
                        None \<Rightarrow> False
                      | Some t \<Rightarrow> ilike t (''%'' @ text_of (q_search q) @ ''%''))]
        else [])"

definition leftJoin :: "'a list \<Rightarrow> ('a \<Rightarrow> 'b list) \<Rightarrow> ('a \<times> 'b option) list" where
  \<comment> \<open>every left row with each right row that matches it, or once with NULL\<close>
  "leftJoin rows matching =
     concat (map (\<lambda>a. if matching a = [] then [(a, None)]
                        else map (\<lambda>b. (a, Some b)) (matching a)) rows)"

type_synonym joined_row = "((event_row \<times> profile option) \<times> going_row option) \<times> rating_row option"

definition joined_rows :: "database \<Rightarrow> event_row list \<Rightarrow> joined_row list" where
  \<comment> \<open>the given rows of events, left join profiles left join event_going left join
      event_ratings\<close>
  "joined_rows d es =
     leftJoin
       (leftJoin
          (leftJoin es
             (\<lambda>e. filter (\<lambda>p. ev_organizerId e = profile_id p) (profiles d)))
          (\<lambda>(e, p). filter (\<lambda>g. ev_id e = going_eventId g) (eventGoing d)))
       (\<lambda>((e, p), g). filter (\<lambda>r. ev_id e = rating_eventId r) (eventRatings d))"

definition events_joined :: "database \<Rightarrow> joined_row list" where
  "events_joined d = joined_rows d (events d)"

definition row_event :: "joined_row \<Rightarrow> event_row" where
  "row_event row = fst (fst (fst row))"

definition row_profile :: "joined_row \<Rightarrow> profile option" where
  "row_profile row = snd (fst (fst row))"

definition row_going :: "joined_row \<Rightarrow> going_row option" where
  "row_going row = snd (fst row)"

definition row_rating :: "joined_row \<Rightarrow> rating_row option" where
  "row_rating row = snd row"

definition group_key :: "joined_row \<Rightarrow> uuid \<times> user_id option \<times> string option \<times> role option" where
  \<comment> \<open>\<open>groupBy(events.id, profiles.id, profiles.username, profiles.role)\<close>\<close>
  "group_key row =
     (ev_id (row_event row), map_option profile_id (row_profile row),
      map_option profile_username (row_profile row), map_option profile_role (row_profile row))"

definition groupBy :: "('r \<Rightarrow> 'k) \<Rightarrow> 'r list \<Rightarrow> 'r list list" where
  "groupBy key rows = map (\<lambda>k. filter (\<lambda>r. key r = k) rows) (remdups (map key rows))"

definition sql_count :: "'a option list \<Rightarrow> nat" where
  \<comment> \<open>\<open>count(column)\<close>: the rows in which the column is not NULL\<close>
  "sql_count col = length (filter (\<lambda>v. v \<noteq> None) col)"

definition sql_avg :: "real option list \<Rightarrow> real option" where
  \<comment> \<open>\<open>avg(column)\<close>: the mean of the values that are not NULL, NULL when there is none\<close>
  "sql_avg col =
     (let vs = List.map_filter (\<lambda>v. v) col
      in if vs = [] then None else Some (sum_list vs / real (length vs)))"

record grouped_event =
  gr_event :: event_row
  gr_organizer :: "profile option"
  gr_goingCount :: nat
  gr_avgRating :: "real option"

definition select_group :: "joined_row list \<Rightarrow> grouped_event list" where
  \<comment> \<open>the selected columns of one group: the columns of the grouped rows and the two
      aggregates; a group has at least one row\<close>
  "select_group rows =
     (case rows of
        [] \<Rightarrow> []
      | row # _ \<Rightarrow>
          [\<lparr>gr_event = row_event row, gr_organizer = row_profile row,
            gr_goingCount = sql_count (map (\<lambda>r. map_option going_id (row_going r)) rows),
            gr_avgRating = sql_avg (map (\<lambda>r. map_option rating_value (row_rating r)) rows)\<rparr>])"

definition events_select ::
  "(string \<Rightarrow> string \<Rightarrow> bool) \<Rightarrow> events_query \<Rightarrow> database \<Rightarrow> grouped_event list" where
  \<comment> \<open>the query of GET /api/events; among equal \<open>startsAt\<close> the order is the database's
      choice, here the order of the groups\<close>
  "events_select ilike q d =
     sort_key (\<lambda>g. - ev_startsAt (gr_event g))
       (concat (map select_group
          (groupBy group_key
             (filter (\<lambda>row. list_all (\<lambda>c. c (row_event row)) (whereConditions ilike q))
                (events_joined d)))))"

record enriched_event =
  en_id :: uuid
  en_title :: string
  en_description :: "string option"
  en_region :: string
  en_city :: string
  en_lat :: number
  en_lng :: number
  en_startsAt :: instant
  en_endsAt :: instant
  en_genre :: string
  en_status :: event_status
  en_distance :: number
  en_organizer :: "user_id \<times> string option \<times> role option"
  en_goingCount :: nat
  en_avgRating :: "real option"
  en_isCancelled :: bool

definition enrich :: "engine \<Rightarrow> number \<Rightarrow> number \<Rightarrow> grouped_event \<Rightarrow> enriched_event" where
  \<comment> \<open>the body of \<open>events.map\<close>; \<open>parseFloat\<close> of the text of a numeric column is the
      double nearest to its decimal; the text of an average is never empty, so
      \<open>event.avgRating ? parseFloat(event.avgRating) : null\<close> keeps the average\<close>
  "enrich m userLat userLng g =
     (let ev = gr_event g;
          eventLat = binary64 (ev_lat ev);
          eventLng = binary64 (ev_lng ev)
      in \<lparr>en_id = ev_id ev, en_title = ev_title ev, en_description = ev_description ev,
          en_region = ev_region ev, en_city = ev_city ev, en_lat = eventLat, en_lng = eventLng,
          en_startsAt = ev_startsAt ev, en_endsAt = ev_endsAt ev, en_genre = ev_genre ev,
          en_status = ev_status ev,
          en_distance = calculateDistance m userLat userLng eventLat eventLng,
          en_organizer = (ev_organizerId ev, map_option profile_username (gr_organizer g),
                          map_option profile_role (gr_organizer g)),
          en_goingCount = gr_goingCount g,
          en_avgRating = gr_avgRating g,
          en_isCancelled = (ev_status ev = Cancelled)\<rparr>)"

definition get_events ::
  "engine \<Rightarrow> (string \<Rightarrow> number) \<Rightarrow> (string \<Rightarrow> string \<Rightarrow> bool) \<Rightarrow> events_query \<Rightarrow> database
     \<Rightarrow> failure + enriched_event list" where
  "get_events m pf ilike q d =
     (if \<not> truthy (q_lat q) \<or> \<not> truthy (q_lng q)
      then Inl (Status 400 ''lat and lng are required'')
      else
        (let userLat = pf (text_of (q_lat q));
             userLng = pf (text_of (q_lng q))
         in if userLat = NaN \<or> userLng = NaN
            then Inl (Status 400 ''Invalid lat or lng'')
            else Inr (Array_sort (\<lambda>a b. number_minus (en_distance a) (en_distance b))
                        (map (enrich m userLat userLng) (events_select ilike q d)))))"


definition delete_event :: "instant \<Rightarrow> user_id option \<Rightarrow> uuid \<Rightarrow> database \<Rightarrow> unit reply" where
  \<comment> \<open>DELETE /api/events/:id; \<open>endsAt\<close> is a stored instant, so its time is finite\<close>
  "delete_event now session eid d =
     (case session of
        None \<Rightarrow> (Inl (Status 401 ''Unauthorized''), d)
      | Some uid \<Rightarrow>
         (let isAdmin = (map_option profile_role (find_profile uid d) = Some Admin)
          in case find_event eid d of
               None \<Rightarrow> (Inl (Status 404 ''Event not found''), d)
             | Some ev \<Rightarrow>
                 if \<not> isAdmin \<and> ev_organizerId ev \<noteq> uid
                 then (Inl (Status 403 ''Unauthorized''), d)
                 else if \<not> isAdmin \<and> ev_endsAt ev < now
                 then (Inl (Status 403 ''Cannot delete ended events''), d)
                 else (Inr (), delete_events eid d)))"


definition is_admin :: "user_id option \<Rightarrow> database \<Rightarrow> bool" where
  \<comment> \<open>the caller is signed in and the profile of the session's user has the role admin\<close>
  "is_admin session d =
     (case session of
        None \<Rightarrow> False
      | Some uid \<Rightarrow> map_option profile_role (find_profile uid d) = Some Admin)"

section \<open>The going button of the event screen (\<open>handleGoingToggle\<close>)\<close>

text \<open>
  The screen works on the table \<open>event_going\<close> directly, a list of (event, user) pairs
  here.  The state holds the signed-in user, the loaded event, the \<open>isGoing\<close> flag, the
  counter, the last toast and the login modal.  The outside world answers with the error
  of the table operation (if any), the notification permission, and the error thrown
  while reminders are scheduled or cancelled (if any).
\<close>

datatype toast =
    CannotRemoveAfterStart
  | RemovedFromYourEvents
  | NotificationsDenied
  | AddedWithReminder
  | Added
  | ErrorMessage string
  | UpdateFailed

record detail_state =
  dt_user :: "user_id option"
  dt_event :: "feed_event option"
  dt_isGoing :: bool
  dt_goingCount :: int
  dt_toast :: "toast option"
  dt_showLoginModal :: bool

record toggle_io =
  tg_table_error :: "string option"
  tg_hasPermission :: bool
  tg_reminder_error :: "string option"

definition error_toast :: "string \<Rightarrow> toast" where
  \<comment> \<open>\<open>err.message || "..."\<close>\<close>
  "error_toast msg = (if msg \<noteq> [] then ErrorMessage msg else UpdateFailed)"

definition handleGoingToggle ::
  "instant \<Rightarrow> toggle_io \<Rightarrow> uuid \<Rightarrow> detail_state \<Rightarrow> (uuid \<times> user_id) list
     \<Rightarrow> detail_state \<times> (uuid \<times> user_id) list" where
  "handleGoingToggle now io eid st table =
     (case dt_user st of
        None \<Rightarrow> (st\<lparr>dt_showLoginModal := True\<rparr>, table)
      | Some uid \<Rightarrow>
         (case dt_event st of
            None \<Rightarrow> (st, table)
          | Some ev \<Rightarrow>
             if dt_isGoing st \<and> now \<ge> fe_starts_at ev
             then (st\<lparr>dt_toast := Some CannotRemoveAfterStart\<rparr>, table)
             else if dt_isGoing st then
               (case tg_table_error io of
                  Some msg \<Rightarrow> (st\<lparr>dt_toast := Some (error_toast msg)\<rparr>, table)
                | None \<Rightarrow>
                   (let table' = filter (\<lambda>row. \<not> (fst row = eid \<and> snd row = uid)) table;
                        st' = st\<lparr>dt_isGoing := False, dt_goingCount := dt_goingCount st - 1\<rparr>
                    in case tg_reminder_error io of
                         Some msg \<Rightarrow> (st'\<lparr>dt_toast := Some (error_toast msg)\<rparr>, table')
                       | None \<Rightarrow> (st'\<lparr>dt_toast := Some RemovedFromYourEvents\<rparr>, table')))
             else
               (let st0 = (if tg_hasPermission io then st
                           else st\<lparr>dt_toast := Some NotificationsDenied\<rparr>)
                in case tg_table_error io of
                     Some msg \<Rightarrow> (st0\<lparr>dt_toast := Some (error_toast msg)\<rparr>, table)
                   | None \<Rightarrow>
                      (let table' = table @ [(eid, uid)];
                           st' = st0\<lparr>dt_isGoing := True, dt_goingCount := dt_goingCount st + 1\<rparr>
                       in if tg_hasPermission io then
                            (case tg_reminder_error io of
                               Some msg \<Rightarrow> (st'\<lparr>dt_toast := Some (error_toast msg)\<rparr>, table')
                             | None \<Rightarrow> (st'\<lparr>dt_toast := Some AddedWithReminder\<rparr>, table'))
                          else (st'\<lparr>dt_toast := Some Added\<rparr>, table')))))"

section \<open>Media URLs (utils/storage.ts)\<close>

text \<open>
  The two calls to the object store are parameters: each answers the arguments it is
  called with by throwing or by returning.  \<open>createSignedUrl\<close> returns whether \<open>error\<close> is
  set and the \<open>data?.signedUrl\<close> it carries; \<open>getPublicUrl\<close> returns \<open>data?.publicUrl\<close>.
  The module-level cache is a map from keys to entries, passed in and returned.  A
  computation that can throw has a result of type \<open>outcome\<close>.
\<close>

datatype 'a outcome = Returns 'a | Throws

datatype sign_result = SignThrows | SignReturns bool "string option"

datatype public_result = PublicThrows | PublicReturns "string option"

record StorageUrlCacheEntry =
  url :: string
  expiresAtMs :: int

type_synonym url_cache = "string \<rightharpoonup> StorageUrlCacheEntry"

definition DEFAULT_EXPIRES_IN :: nat where
  "DEFAULT_EXPIRES_IN = 60 * 60"

fun decimal :: "nat \<Rightarrow> string" where
  \<comment> \<open>the decimal text of a natural number, as a template literal prints it\<close>
  "decimal n =
     (if n < 10 then [char_of (48 + n)] else decimal (n div 10) @ [char_of (48 + n mod 10)])"

definition cacheKey :: "string \<Rightarrow> string \<Rightarrow> nat \<Rightarrow> string" where
  "cacheKey bucket path exp' = bucket @ ''|'' @ decimal exp' @ ''|'' @ path"

fun indexOf :: "string \<Rightarrow> string \<Rightarrow> nat option" where
  \<comment> \<open>the first position at which the marker occurs (\<open>None\<close> for JavaScript's -1)\<close>
  "indexOf [] m = (if m = [] then Some 0 else None)"
| "indexOf (c # cs) m =
     (if startsWith (c # cs) m then Some 0 else map_option Suc (indexOf cs m))"

definition String_includes :: "string \<Rightarrow> string \<Rightarrow> bool" where
  "String_includes s m = (indexOf s m \<noteq> None)"

definition after_marker :: "string \<Rightarrow> nat \<Rightarrow> string \<Rightarrow> string" where
  \<comment> \<open>\<open>value.slice(index + marker.length).split("?")[0]\<close>\<close>
  "after_marker v index marker = takeWhile (\<lambda>c. c \<noteq> CHR ''?'') (drop (index + length marker) v)"

definition tryExtractBucketPath :: "string \<Rightarrow> string \<Rightarrow> string option" where
  "tryExtractBucketPath bucket v =
     (if \<not> startsWith v ''http'' then Some (dropWhile (\<lambda>c. c = CHR ''/'') v)
      else
        (let signedMarker = ''/storage/v1/object/sign/'' @ bucket @ ''/''
         in case indexOf v signedMarker of
              Some signedIndex \<Rightarrow> Some (after_marker v signedIndex signedMarker)
            | None \<Rightarrow>
               (let publicMarker = ''/storage/v1/object/public/'' @ bucket @ ''/''
                in case indexOf v publicMarker of
                     Some markerIndex \<Rightarrow> Some (after_marker v markerIndex publicMarker)
                   | None \<Rightarrow>
                      (let genericMarker = ''/storage/v1/object/'' @ bucket @ ''/''
                       in case indexOf v genericMarker of
                            Some genericIndex \<Rightarrow> Some (after_marker v genericIndex genericMarker)
                          | None \<Rightarrow> None))))"

definition try_signed ::
  "instant \<Rightarrow> sign_result \<Rightarrow> string \<Rightarrow> string \<Rightarrow> nat \<Rightarrow> url_cache
     \<Rightarrow> (string \<times> url_cache) option outcome" where
  \<comment> \<open>the first \<open>try\<close> block: \<open>Returns (Some r)\<close> is its \<open>return\<close>, \<open>Returns None\<close> its
      falling through\<close>
  "try_signed now signed bucket path exp' cache =
     (case signed of
        SignThrows \<Rightarrow> Throws
      | SignReturns error signedUrl \<Rightarrow>
          if \<not> error \<and> truthy signedUrl
          then Returns (Some (text_of signedUrl,
                 cache(cacheKey bucket path exp' \<mapsto>
                   \<lparr>url = text_of signedUrl, expiresAtMs = now + int exp' * 1000\<rparr>)))
          else Returns None)"

definition try_public ::
  "instant \<Rightarrow> public_result \<Rightarrow> string \<Rightarrow> string \<Rightarrow> nat \<Rightarrow> url_cache
     \<Rightarrow> (string \<times> url_cache) option outcome" where
  \<comment> \<open>the second \<open>try\<close> block\<close>
  "try_public now public bucket path exp' cache =
     (case public of
        PublicThrows \<Rightarrow> Throws
      | PublicReturns publicUrl \<Rightarrow>
          if truthy publicUrl
          then Returns (Some (text_of publicUrl,
                 cache(cacheKey bucket path exp' \<mapsto>
                   \<lparr>url = text_of publicUrl, expiresAtMs = now + int exp' * 1000\<rparr>)))
          else Returns None)"

definition cache_hit :: "instant \<Rightarrow> url_cache \<Rightarrow> string \<Rightarrow> string option" where
  \<comment> \<open>\<open>cached && cached.expiresAtMs > Date.now() + 30_000\<close>\<close>
  "cache_hit now cache key =
     (case cache key of
        None \<Rightarrow> None
      | Some cached \<Rightarrow> if expiresAtMs cached > now + 30000 then Some (url cached) else None)"

definition sign_fails :: "sign_result \<Rightarrow> bool" where
  \<comment> \<open>signed-URL creation fails: it throws, reports an error, or carries no URL\<close>
  "sign_fails r =
     (case r of SignThrows \<Rightarrow> True | SignReturns error signedUrl \<Rightarrow> error \<or> \<not> truthy signedUrl)"

definition public_fails :: "public_result \<Rightarrow> bool" where
  "public_fails r =
     (case r of PublicThrows \<Rightarrow> True | PublicReturns publicUrl \<Rightarrow> \<not> truthy publicUrl)"

definition catch_fall_through :: "'a option outcome \<Rightarrow> 'a option" where
  \<comment> \<open>\<open>try { ... } catch { /* fall back below */ }\<close>\<close>
  "catch_fall_through r = (case r of Throws \<Rightarrow> None | Returns x \<Rightarrow> x)"

definition resolveStorageUrl ::
  "instant \<Rightarrow> (string \<Rightarrow> string \<Rightarrow> nat \<Rightarrow> sign_result) \<Rightarrow> (string \<Rightarrow> string \<Rightarrow> public_result)
     \<Rightarrow> string \<Rightarrow> string option \<Rightarrow> nat option \<Rightarrow> url_cache
     \<Rightarrow> (string option \<times> url_cache) outcome" where
  "resolveStorageUrl now createSignedUrl getPublicUrl bucket v expiresIn cache =
     (if \<not> truthy v then Returns (None, cache)
      else
        (let val = text_of v
         in if startsWith val ''http''
               \<and> String_includes val (''/storage/v1/object/sign/'' @ bucket @ ''/'')
            then Returns (Some val, cache)
            else
              (let path = tryExtractBucketPath bucket val;
                   exp' = (case expiresIn of None \<Rightarrow> DEFAULT_EXPIRES_IN | Some e \<Rightarrow> e)
               in if truthy path then
                    (case cache_hit now cache (cacheKey bucket (text_of path) exp') of
                       Some cached_url \<Rightarrow> Returns (Some cached_url, cache)
                     | None \<Rightarrow>
                        (case catch_fall_through
                                (try_signed now (createSignedUrl bucket (text_of path) exp')
                                   bucket (text_of path) exp' cache) of
                           Some (u, cache') \<Rightarrow> Returns (Some u, cache')
                         | None \<Rightarrow>
                            (case catch_fall_through
                                    (try_public now (getPublicUrl bucket (text_of path))
                                       bucket (text_of path) exp' cache) of
                               Some (u, cache') \<Rightarrow> Returns (Some u, cache')
                             | None \<Rightarrow> Returns (Some val, cache))))
                  else Returns (Some val, cache))))"

section \<open>A scenario\<close>

text \<open>
  An event that starts on 2026-03-01 at 22:00 UTC and ends on 2026-03-02 at 04:00 UTC,
  a draft of the same organizer, two users who are going and have rated the event, and
  an administrator.
\<close>

definition scenario_event :: event_row where
  "scenario_event =
     \<lparr>ev_id = ''e1'', ev_organizerId = ''org'', ev_title = ''Night'', ev_description = None,
      ev_region = ''Osrednjeslovenska'', ev_city = ''Ljubljana'',
      ev_lat = 46.0569, ev_lng = 14.5058,
      ev_startsAt = 1772402400000, ev_endsAt = 1772424000000,
      ev_genre = ''techno'', ev_status = Published, ev_createdAt = 1770000000000\<rparr>"

definition scenario_draft :: event_row where
  "scenario_draft =
     scenario_event\<lparr>ev_id := ''e2'', ev_title := ''Draft night'', ev_status := Draft\<rparr>"

definition scenario_db :: database where
  "scenario_db =
     \<lparr>profiles =
        [\<lparr>profile_id = ''org'', profile_username = ''organizer'', profile_role = Organizer,
          profile_avatarUrl = None\<rparr>,
         \<lparr>profile_id = ''u1'', profile_username = ''ana'', profile_role = User,
          profile_avatarUrl = None\<rparr>,
         \<lparr>profile_id = ''u2'', profile_username = ''bor'', profile_role = User,
          profile_avatarUrl = None\<rparr>,
         \<lparr>profile_id = ''adm'', profile_username = ''admin'', profile_role = Admin,
          profile_avatarUrl = None\<rparr>],
      events = [scenario_event, scenario_draft],
      eventGoing =
        [\<lparr>going_id = ''g1'', going_eventId = ''e1'', going_userId = ''u1'',
          going_createdAt = 1771000000000\<rparr>,
         \<lparr>going_id = ''g2'', going_eventId = ''e1'', going_userId = ''u2'',
          going_createdAt = 1771000000001\<rparr>],
      eventComments = [],
      eventImages = [],
      eventRatings =
        [\<lparr>rating_id = ''r1'', rating_eventId = ''e1'', rating_userId = ''u1'',
          rating_value = 4.0, rating_createdAt = 1772430000000\<rparr>,
         \<lparr>rating_id = ''r2'', rating_eventId = ''e1'', rating_userId = ''u2'',
          rating_value = 5.0, rating_createdAt = 1772430000001\<rparr>]\<rparr>"


text \<open>
  An engine whose sine and cosine are the exact values, and whose arctangent is the exact
  one on finite arguments.
\<close>

definition scenario_math :: engine where
  "scenario_math =
     \<lparr>sin_of = sin, cos_of = cos,
      atan2_of = (\<lambda>y x. case (y, x) of
         (Finite b, Finite a) \<Rightarrow>
            (if a > 0 then arctan (b / a)
             else if a < 0 then (if b \<ge> 0 then arctan (b / a) + pi else arctan (b / a) - pi)
             else if b > 0 then pi / 2 else if b < 0 then - pi / 2 else 0)
       | _ \<Rightarrow> 0)\<rparr>"

text \<open>
  A viewer in Ljubljana and two rows of the feed: one without latitude and longitude
  whose city is called Constructor, which is no city of the table, and one at the
  viewer's place.
\<close>

definition scenario_viewer :: coords where
  "scenario_viewer = PlainObject \<lparr>lat = Num (binary64 46.0569), lng = Num (binary64 14.5058)\<rparr>"

definition scenario_row :: feed_event where
  "scenario_row =
     \<lparr>fe_id = ''k'', fe_title = ''Night'', fe_region = ''Osrednjeslovenska'',
      fe_city = Some ''Ljubljana'', fe_lat = JNumber (binary64 46.0569),
      fe_lng = JNumber (binary64 14.5058), fe_starts_at = 1772402400000,
      fe_ends_at = 1772424000000, fe_genre = ''techno'', fe_status = Published,
      fe_organizer_id = ''org''\<rparr>"

definition scenario_feed :: "feed_event list" where
  "scenario_feed =
     [scenario_row\<lparr>fe_id := ''c'', fe_city := Some ''Constructor'', fe_lat := JOther,
                   fe_lng := JOther\<rparr>,
      scenario_row]"

text \<open>A first run of \<open>loadLocation\<close>: permission is granted, the position cannot be read.\<close>

definition scenario_state :: feed_state where
  "scenario_state =
     \<lparr>locationLoadedRef = False, location = None, stored_location = None,
      selected_city = Some '' Maribor ''\<rparr>"

definition scenario_io :: location_io where
  "scenario_io =
     \<lparr>getItem_location_rejects = False, permission = Some ''granted'', position = None,
      getItem_city_rejects = False, setItem_rejects = False, setItem_undefined = None\<rparr>"

text \<open>A request for the feed of events, filtered by genre and a search text.\<close>

definition scenario_query :: events_query where
  "scenario_query =
     \<lparr>q_lat = Some ''46.05'', q_lng = Some ''14.5'', q_region = None, q_city = None,
      q_genre = Some ''techno'', q_search = Some ''night''\<rparr>"

definition scenario_reply :: enriched_event where
  "scenario_reply =
     enrich scenario_math (binary64 46.05) (binary64 14.5)
       \<lparr>gr_event = scenario_event,
        gr_organizer = Some \<lparr>profile_id = ''org'', profile_username = ''organizer'',
                             profile_role = Organizer, profile_avatarUrl = None\<rparr>,
        gr_goingCount = 4, gr_avgRating = Some 4.5\<rparr>"

section \<open>Properties\<close>

subsection \<open>Rounding to doubles\<close>

lemma round_half_even_error: "\<bar>real_of_int (round_half_even z) - z\<bar> \<le> 1 / 2"
  unfolding round_half_even_def Let_def by (auto; linarith)

lemma round_half_even_int: "round_half_even (real_of_int n) = n"
  by (simp add: round_half_even_def)

lemma round_half_even_le: "z \<le> real_of_int n \<Longrightarrow> round_half_even z \<le> n"
  unfolding round_half_even_def Let_def by (auto; linarith)

lemma round_half_even_ge: "real_of_int n \<le> z \<Longrightarrow> n \<le> round_half_even z"
  unfolding round_half_even_def Let_def by (auto; linarith)

lemma binary64_binade:
  assumes "2 powi e \<le> y" "y < 2 powi (e + 1)" "- 1022 \<le> e" "e \<le> 1022"
  shows "binary64 y = Finite (real_of_int (round_half_even (y / 2 powi (e - 52))) * 2 powi (e - 52))"
proof -
  have p: "(0::real) < 2 powi e" by simp
  with assms(1) have y: "y > 0" by linarith
  have "(2::real) powr real_of_int e = 2 powi e" "(2::real) powr real_of_int (e + 1) = 2 powi (e + 1)"
    using powr_real_of_int' [of 2 e] powr_real_of_int' [of 2 "e + 1"] by simp_all
  then have "\<lfloor>log 2 y\<rfloor> = e"
    using y assms(1,2) floor_log_eq_powr_iff [of y 2 e] by simp
  then have e: "max \<lfloor>log 2 \<bar>y\<bar>\<rfloor> (- 1022) = e" using y assms(3) by simp
  let ?u = "(2::real) powi (e - 52)"
  have u: "?u > 0" by simp
  have s: "(2::real) powi (e + 1) = ?u * 2 powi 53"
    using power_int_add [of "2::real" "e - 52" 53] by (simp add: add.commute)
  have "y / ?u \<le> real_of_int (2 ^ 53)"
    using assms(2) u unfolding s by (simp add: field_simps)
  then have "round_half_even (y / ?u) \<le> 2 ^ 53" by (rule round_half_even_le)
  then have "real_of_int (round_half_even (y / ?u)) \<le> real_of_int (2 ^ 53)"
    by (simp only: of_int_le_iff)
  then have "real_of_int (round_half_even (y / ?u)) \<le> 2 ^ 53" by simp
  then have "real_of_int (round_half_even (y / ?u)) * ?u \<le> 2 ^ 53 * ?u"
    using u by (simp add: mult_right_mono)
  also have "\<dots> = 2 powi (e + 1)" unfolding s by simp
  also have "\<dots> \<le> 2 powi 1023" using assms(4) by (intro power_int_increasing) auto
  also have "\<dots> < (2::real) powi 1024" by (intro power_int_strict_increasing) auto
  finally have "\<not> real_of_int (round_half_even (y / ?u)) * ?u \<ge> 2 powi 1024" by simp
  then show ?thesis
    using y e by (simp add: binary64_def Let_def)
qed


text \<open>What rounding does to a positive real whose binade is known.\<close>

lemma binary64_near:
  assumes "2 powi e \<le> y" "y < 2 powi (e + 1)" "- 1022 \<le> e" "e \<le> 1022"
  shows "\<exists>z. binary64 y = Finite z \<and> \<bar>z - y\<bar> \<le> 2 powi (e - 53)
            \<and> (\<forall>n. y \<le> real_of_int n * 2 powi (e - 52) \<longrightarrow> z \<le> real_of_int n * 2 powi (e - 52))
            \<and> (\<forall>n. real_of_int n * 2 powi (e - 52) \<le> y \<longrightarrow> real_of_int n * 2 powi (e - 52) \<le> z)"
proof -
  let ?u = "(2::real) powi (e - 52)"
  let ?m = "round_half_even (y / ?u)"
  have u: "?u > 0" by simp
  have h: "(2::real) powi (e - 53) = ?u / 2"
    using power_int_add [of "2::real" "e - 53" 1] by (simp add: add.commute)
  have b: "binary64 y = Finite (real_of_int ?m * ?u)"
    using assms by (rule binary64_binade)
  have "\<bar>real_of_int ?m - y / ?u\<bar> \<le> 1 / 2" by (rule round_half_even_error)
  then have "\<bar>real_of_int ?m - y / ?u\<bar> * ?u \<le> 1 / 2 * ?u"
    using u by (simp add: mult_right_mono)
  moreover have "\<bar>real_of_int ?m - y / ?u\<bar> * ?u = \<bar>real_of_int ?m * ?u - y\<bar>"
  proof -
    have "\<bar>real_of_int ?m - y / ?u\<bar> * ?u = \<bar>(real_of_int ?m - y / ?u) * ?u\<bar>"
      using u by (simp add: abs_mult)
    also have "(real_of_int ?m - y / ?u) * ?u = real_of_int ?m * ?u - y"
      using u by (simp add: field_simps)
    finally show ?thesis .
  qed
  ultimately have err: "\<bar>real_of_int ?m * ?u - y\<bar> \<le> 2 powi (e - 53)"
    unfolding h by simp
  have up: "real_of_int ?m * ?u \<le> real_of_int n * ?u" if "y \<le> real_of_int n * ?u" for n
  proof -
    from that u have "y / ?u \<le> real_of_int n" by (simp add: field_simps)
    then have "?m \<le> n" by (rule round_half_even_le)
    then have "real_of_int ?m \<le> real_of_int n" by (simp only: of_int_le_iff)
    then show ?thesis using u by (simp add: mult_right_mono)
  qed
  have lo: "real_of_int n * ?u \<le> real_of_int ?m * ?u" if "real_of_int n * ?u \<le> y" for n
  proof -
    from that u have "real_of_int n \<le> y / ?u" by (simp add: field_simps)
    then have "n \<le> ?m" by (rule round_half_even_ge)
    then have "real_of_int n \<le> real_of_int ?m" by (simp only: of_int_le_iff)
    then show ?thesis using u by (simp add: mult_right_mono)
  qed
  from b err up lo show ?thesis by blast
qed

lemma binary64_exact:
  assumes "2 powi e \<le> y" "y < 2 powi (e + 1)" "- 1022 \<le> e" "e \<le> 1022"
    and "y = real_of_int n * 2 powi (e - 52)"
  shows "binary64 y = Finite y"
proof -
  from binary64_near [OF assms(1-4)] obtain z where
    z: "binary64 y = Finite z"
    and up: "\<forall>n. y \<le> real_of_int n * 2 powi (e - 52) \<longrightarrow> z \<le> real_of_int n * 2 powi (e - 52)"
    and lo: "\<forall>n. real_of_int n * 2 powi (e - 52) \<le> y \<longrightarrow> real_of_int n * 2 powi (e - 52) \<le> z"
    by blast
  from up lo assms(5) have "z \<le> y" "y \<le> z" by auto
  with z show ?thesis by simp
qed

lemma binary64_1_to_8:
  assumes "1 \<le> y" "y < 8"
  shows "\<exists>z. binary64 y = Finite z \<and> \<bar>z - y\<bar> \<le> 2 powi (- 51) \<and> 1 \<le> z
            \<and> (y \<le> 5 \<longrightarrow> z \<le> 5)"
proof -
  consider "y < 2" | "2 \<le> y" "y < 4" | "4 \<le> y" by linarith
  then show ?thesis
  proof cases
    case 1
    from binary64_near [of 0 y] assms 1 obtain z where
      z: "binary64 y = Finite z" "\<bar>z - y\<bar> \<le> 2 powi (- 53)"
      and lo: "\<forall>n. real_of_int n * 2 powi (- 52) \<le> y \<longrightarrow> real_of_int n * 2 powi (- 52) \<le> z"
      by auto
    from z(2) have d: "z \<le> y + 2 powi (- 53)" "y - 2 powi (- 53) \<le> z"
      unfolding abs_le_iff by linarith+
    have e: "\<bar>z - y\<bar> \<le> 2 powi (- 51)"
      using d unfolding abs_le_iff by simp
    from lo [rule_format, of "2 ^ 52"] assms have "1 \<le> z" by (simp add: abs_le_iff)
    moreover from d 1 e have "z \<le> 5" "\<bar>z - y\<bar> \<le> 2 powi (- 51)" by simp_all
    ultimately show ?thesis using z by auto
  next
    case 2
    from binary64_near [of 1 y] 2 obtain z where
      z: "binary64 y = Finite z" "\<bar>z - y\<bar> \<le> 2 powi (- 52)"
      by auto
    from z(2) have d: "z \<le> y + 2 powi (- 52)" "y - 2 powi (- 52) \<le> z"
      unfolding abs_le_iff by linarith+
    have e: "\<bar>z - y\<bar> \<le> 2 powi (- 51)"
      using d unfolding abs_le_iff by simp
    from d 2 e have "1 \<le> z" "z \<le> 5" "\<bar>z - y\<bar> \<le> 2 powi (- 51)" by simp_all
    then show ?thesis using z by auto
  next
    case 3
    from binary64_near [of 2 y] assms 3 obtain z where
      z: "binary64 y = Finite z" "\<bar>z - y\<bar> \<le> 2 powi (- 51)"
      and up: "\<forall>n. y \<le> real_of_int n * 2 powi (- 50) \<longrightarrow> z \<le> real_of_int n * 2 powi (- 50)"
      by auto
    from z(2) have d: "z \<le> y + 2 powi (- 51)" "y - 2 powi (- 51) \<le> z"
      unfolding abs_le_iff by linarith+
    have e: "\<bar>z - y\<bar> \<le> 2 powi (- 51)"
      using d unfolding abs_le_iff by simp
    from up [rule_format, of "5 * 2 ^ 50"] have "y \<le> 5 \<longrightarrow> z \<le> 5" by simp
    moreover from d 3 have "1 \<le> z" by simp
    ultimately show ?thesis using z by auto
  qed
qed

lemma binary64_8_to_64:
  assumes "8 \<le> y" "y < 64"
  shows "\<exists>w. binary64 y = Finite w \<and> \<bar>w - y\<bar> \<le> 2 powi (- 48)
            \<and> (10 \<le> y \<longrightarrow> 10 \<le> w) \<and> (y \<le> 50 \<longrightarrow> w \<le> 50)"
proof -
  consider "y < 16" | "16 \<le> y" "y < 32" | "32 \<le> y" by linarith
  then show ?thesis
  proof cases
    case 1
    from binary64_near [of 3 y] assms 1 obtain w where
      w: "binary64 y = Finite w" "\<bar>w - y\<bar> \<le> 2 powi (- 50)"
      and lo: "\<forall>n. real_of_int n * 2 powi (- 49) \<le> y \<longrightarrow> real_of_int n * 2 powi (- 49) \<le> w"
      by auto
    from w(2) have d: "w \<le> y + 2 powi (- 50)" "y - 2 powi (- 50) \<le> w"
      unfolding abs_le_iff by linarith+
    have e: "\<bar>w - y\<bar> \<le> 2 powi (- 48)"
      using d unfolding abs_le_iff by simp
    from lo [rule_format, of "10 * 2 ^ 49"] have "10 \<le> y \<longrightarrow> 10 \<le> w" by simp
    moreover from d 1 e have "w \<le> 50" "\<bar>w - y\<bar> \<le> 2 powi (- 48)" by simp_all
    ultimately show ?thesis using w by auto
  next
    case 2
    from binary64_near [of 4 y] 2 obtain w where
      w: "binary64 y = Finite w" "\<bar>w - y\<bar> \<le> 2 powi (- 49)"
      by auto
    from w(2) have d: "w \<le> y + 2 powi (- 49)" "y - 2 powi (- 49) \<le> w"
      unfolding abs_le_iff by linarith+
    have e: "\<bar>w - y\<bar> \<le> 2 powi (- 48)"
      using d unfolding abs_le_iff by simp
    from d 2 e have "10 \<le> w" "w \<le> 50" "\<bar>w - y\<bar> \<le> 2 powi (- 48)" by simp_all
    then show ?thesis using w by auto
  next
    case 3
    from binary64_near [of 5 y] assms 3 obtain w where
      w: "binary64 y = Finite w" "\<bar>w - y\<bar> \<le> 2 powi (- 48)"
      and up: "\<forall>n. y \<le> real_of_int n * 2 powi (- 47) \<longrightarrow> w \<le> real_of_int n * 2 powi (- 47)"
      by auto
    from w(2) have d: "w \<le> y + 2 powi (- 48)" "y - 2 powi (- 48) \<le> w"
      unfolding abs_le_iff by linarith+
    have e: "\<bar>w - y\<bar> \<le> 2 powi (- 48)"
      using d unfolding abs_le_iff by simp
    from up [rule_format, of "50 * 2 ^ 47"] have "y \<le> 50 \<longrightarrow> w \<le> 50" by simp
    moreover from d 3 have "10 \<le> w" by simp
    ultimately show ?thesis using w by auto
  qed
qed

lemma binary64_0: "binary64 0 = Finite 0"
  by (simp add: binary64_def)

lemma binary64_not_NaN: "binary64 y \<noteq> NaN"
  by (simp add: binary64_def Let_def)

text \<open>Rounding does not carry a number beyond a power of two that bounds it.\<close>

lemma binary64_bounded:
  assumes "\<bar>y\<bar> \<le> 2 powi k" "- 1022 \<le> k" "k \<le> 1023"
  shows "\<exists>z. binary64 y = Finite z \<and> \<bar>z\<bar> \<le> 2 powi k"
proof (cases "y = 0")
  case True
  then show ?thesis by (simp add: binary64_0)
next
  case False
  define e where "e = max \<lfloor>log 2 \<bar>y\<bar>\<rfloor> (- 1022)"
  let ?u = "(2::real) powi (e - 52)"
  let ?m = "round_half_even (\<bar>y\<bar> / ?u)"
  have u: "?u > 0" by simp
  from False have y: "\<bar>y\<bar> > 0" by simp
  have "(2::real) powr real_of_int k = 2 powi k"
    using powr_real_of_int' [of 2 k] by simp
  then have "log 2 (2 powi k) = real_of_int k"
    using log_powr_cancel [of 2 "real_of_int k"] by simp
  moreover have "log 2 \<bar>y\<bar> \<le> log 2 (2 powi k)" using y assms(1) by simp
  ultimately have "log 2 \<bar>y\<bar> \<le> real_of_int k" by simp
  then have "\<lfloor>log 2 \<bar>y\<bar>\<rfloor> \<le> k" by (simp add: floor_le_iff)
  with assms(2) have ek: "e \<le> k" by (simp add: e_def)
  have s: "(2::real) powi k = real_of_int (2 ^ nat (k - e + 52)) * ?u"
  proof -
    have "(2::real) powi k = 2 powi (k - e + 52) * ?u"
      using power_int_add [of "2::real" "k - e + 52" "e - 52"] by simp
    moreover have "(2::real) powi (k - e + 52) = 2 ^ nat (k - e + 52)"
      using ek by (simp add: power_int_def)
    ultimately show ?thesis by simp
  qed
  have "\<bar>y\<bar> / ?u \<le> real_of_int (2 ^ nat (k - e + 52))"
    using assms(1) u unfolding s by (simp add: field_simps)
  then have "?m \<le> 2 ^ nat (k - e + 52)" by (rule round_half_even_le)
  then have "real_of_int ?m \<le> real_of_int (2 ^ nat (k - e + 52))" by (simp only: of_int_le_iff)
  then have le: "real_of_int ?m * ?u \<le> 2 powi k"
    unfolding s using u by (simp add: mult_right_mono)
  have "real_of_int 0 \<le> \<bar>y\<bar> / ?u" using u by simp
  then have "0 \<le> ?m" by (rule round_half_even_ge)
  then have ge: "0 \<le> real_of_int ?m * ?u" using u by simp
  have "(2::real) powi k \<le> 2 powi 1023" using assms(3) by (intro power_int_increasing) auto
  also have "\<dots> < (2::real) powi 1024" by (intro power_int_strict_increasing) auto
  finally have "\<not> real_of_int ?m * ?u \<ge> 2 powi 1024" using le by simp
  then have "binary64 y = Finite (if y > 0 then real_of_int ?m * ?u else - (real_of_int ?m * ?u))"
    using False by (simp add: binary64_def Let_def e_def)
  with le ge show ?thesis by auto
qed

lemma binary64_1: "binary64 1 = Finite 1"
  using binary64_binade [of 0 1] by (simp add: round_half_even_def)

lemma binary64_3: "binary64 3 = Finite 3"
  using binary64_binade [of 1 3] by (simp add: round_half_even_def)

lemma binary64_4_5: "binary64 (9 / 2) = Finite (9 / 2)"
  using binary64_binade [of 2 "9 / 2"] by (simp add: round_half_even_def)

lemma binary64_3_3: "binary64 3.3 = Finite (7430939385161318 / 2251799813685248)"
  using binary64_binade [of 1 "3.3"] by (simp add: round_half_even_def)

lemma binary64_3_3_longer: "binary64 3.30000000000000001 = binary64 3.3"
  using binary64_binade [of 1 "3.3"] binary64_binade [of 1 "3.30000000000000001"]
  by (simp add: round_half_even_def)

lemma binary64_finite: "\<bar>y\<bar> \<le> 2 powi 10 \<Longrightarrow> Number_isFinite (binary64 y)"
  using binary64_bounded [of y 10] by auto

subsection \<open>Rating validation\<close>

text \<open>
  The doubles nearest to the 41 decimals k/10, k from 10 to 50, lie in [1, 5] and within
  2 to the power - 51 of their decimal; ten times such a double rounds to a double within
  2 to the power - 48 of the product, so that \<open>Math.round\<close> recovers k.
\<close>

lemma tenth_near:
  assumes "10 \<le> k" "k \<le> 50"
  shows "\<exists>z. binary64 (real_of_int k / 10) = Finite z \<and> \<bar>z - real_of_int k / 10\<bar> \<le> 2 powi (- 51)
           \<and> 1 \<le> z \<and> z \<le> 5"
proof -
  from assms have "1 \<le> real_of_int k / 10" "real_of_int k / 10 < 8" "real_of_int k / 10 \<le> 5"
    by simp_all
  with binary64_1_to_8 [of "real_of_int k / 10"] show ?thesis by blast
qed

lemma validateRating_Finite:
  assumes "1 \<le> v" "v \<le> 5"
  shows "\<exists>w. binary64 (v * 10) = Finite w \<and> \<bar>w - v * 10\<bar> \<le> 2 powi (- 48) \<and> 10 \<le> w \<and> w \<le> 50
           \<and> validateRating (Finite v) = (binary64 (real_of_int \<lfloor>w + 1 / 2\<rfloor> / 10) = Finite v)"
proof -
  from assms have "8 \<le> v * 10" "v * 10 < 64" "10 \<le> v * 10" "v * 10 \<le> 50" by simp_all
  with binary64_8_to_64 [of "v * 10"] obtain w where
    w: "binary64 (v * 10) = Finite w" "\<bar>w - v * 10\<bar> \<le> 2 powi (- 48)" "10 \<le> w" "w \<le> 50"
    by blast
  have "validateRating (Finite v) = (binary64 (real_of_int \<lfloor>w + 1 / 2\<rfloor> / 10) = Finite v)"
    using assms w(1) by (auto simp: validateRating_def number_ge_def strict_equal_def)
  with w show ?thesis by blast
qed

lemma validateRating_tenth:
  assumes "10 \<le> k" "k \<le> 50"
  shows "validateRating (binary64 (real_of_int k / 10))"
proof -
  from tenth_near [OF assms] obtain z where
    z: "binary64 (real_of_int k / 10) = Finite z" "\<bar>z - real_of_int k / 10\<bar> \<le> 2 powi (- 51)"
       "1 \<le> z" "z \<le> 5"
    by blast
  from validateRating_Finite [OF z(3,4)] obtain w where
    w: "\<bar>w - z * 10\<bar> \<le> 2 powi (- 48)"
       "validateRating (Finite z) = (binary64 (real_of_int \<lfloor>w + 1 / 2\<rfloor> / 10) = Finite z)"
    by blast
  from z(2) have dz: "z \<le> real_of_int k / 10 + 2 powi (- 51)" "real_of_int k / 10 - 2 powi (- 51) \<le> z"
    unfolding abs_le_iff by linarith+
  from w(1) have dw: "w \<le> z * 10 + 2 powi (- 48)" "z * 10 - 2 powi (- 48) \<le> w"
    unfolding abs_le_iff by linarith+
  from dz dw have "real_of_int k \<le> w + 1 / 2" "w + 1 / 2 < real_of_int k + 1" by simp_all
  then have "\<lfloor>w + 1 / 2\<rfloor> = k" by linarith
  with w(2) z(1) show ?thesis by simp
qed

lemma validateRating_iff: "validateRating x = (x \<in> (\<lambda>k. binary64 (real_of_int k / 10)) ` {10..50})"
proof
  assume v: "validateRating x"
  then obtain y where x: "x = Finite y" and r: "1 \<le> y" "y \<le> 5"
    by (cases x) (simp_all add: validateRating_def number_ge_def)
  from validateRating_Finite [OF r] obtain w :: real where
    w: "10 \<le> w" "w \<le> 50"
       "validateRating (Finite y) = (binary64 (real_of_int \<lfloor>w + 1 / 2\<rfloor> / 10) = Finite y)"
    by blast
  from w(1,2) have "10 \<le> \<lfloor>w + 1 / 2\<rfloor>" "\<lfloor>w + 1 / 2\<rfloor> \<le> 50" by linarith+
  moreover from v w(3) x have "x = binary64 (real_of_int \<lfloor>w + 1 / 2\<rfloor> / 10)" by simp
  ultimately show "x \<in> (\<lambda>k. binary64 (real_of_int k / 10)) ` {10..50}"  by auto
next
  assume "x \<in> (\<lambda>k. binary64 (real_of_int k / 10)) ` {10..50}"
  then show "validateRating x"  by (auto simp: validateRating_tenth)
qed

lemma rounded_tenth:
  assumes "10 \<le> k" "k \<le> 50"
  shows "rounded_to_one_decimal (binary64 (real_of_int k / 10)) = binary64 (real_of_int k / 10)"
proof -
  from tenth_near [OF assms] obtain z where
    z: "binary64 (real_of_int k / 10) = Finite z" "\<bar>z - real_of_int k / 10\<bar> \<le> 2 powi (- 51)"
    by blast
  from z(2) have dz: "z \<le> real_of_int k / 10 + 2 powi (- 51)" "real_of_int k / 10 - 2 powi (- 51) \<le> z"
    unfolding abs_le_iff by linarith+
  from dz have "real_of_int k \<le> z * 10 + 1 / 2" "z * 10 + 1 / 2 < real_of_int k + 1" by simp_all
  then have "\<lfloor>z * 10 + 1 / 2\<rfloor> = k" by linarith
  then show ?thesis using z(1) by (simp add: round_def)
qed

lemma validateRating_spec:
  "validateRating x
     = (number_le (Finite 1) x \<and> number_le x (Finite 5) \<and> x = rounded_to_one_decimal x)"
proof
  assume "validateRating x"
  then have t: "x \<in> (\<lambda>k. binary64 (real_of_int k / 10)) ` {10..50}" and r: "number_le (Finite 1) x" "number_le x (Finite 5)"
    by (simp_all add: validateRating_iff [symmetric]) (simp_all add: validateRating_def number_ge_def)
  from t obtain k where "10 \<le> k" "k \<le> 50" "x = binary64 (real_of_int k / 10)"
     by auto
  then have "x = rounded_to_one_decimal x" by (simp add: rounded_tenth)
  with r show "number_le (Finite 1) x \<and> number_le x (Finite 5) \<and> x = rounded_to_one_decimal x"
    by simp
next
  assume a: "number_le (Finite 1) x \<and> number_le x (Finite 5) \<and> x = rounded_to_one_decimal x"
  then obtain y where x: "x = Finite y" and r: "1 \<le> y" "y \<le> 5"
    by (cases x) simp_all
  from r have "10 \<le> round (y * 10)" "round (y * 10) \<le> 50"
    unfolding round_def by linarith+
  moreover from a x have "x = binary64 (real_of_int (round (y * 10)) / 10)" by simp
  ultimately have "x \<in> (\<lambda>k. binary64 (real_of_int k / 10)) ` {10..50}"  by auto
  then show "validateRating x" by (simp add: validateRating_iff)
qed
lemma validateRating_3: "validateRating (Finite 3)"
  using validateRating_tenth [of 30] by (simp add: binary64_3)

lemma validateRating_4_5: "validateRating (Finite 4.5)"
  using validateRating_tenth [of 45] by (simp add: binary64_4_5)

lemma validateRating_stored:
  assumes "validateRating x"
  shows "1 \<le> numeric_2_1 x \<and> numeric_2_1 x \<le> 5"
proof -
  from assms obtain k where k: "10 \<le> k" "k \<le> 50" "x = binary64 (real_of_int k / 10)"
    unfolding validateRating_iff by auto
  from tenth_near [OF k(1,2)] obtain z where
    z: "binary64 (real_of_int k / 10) = Finite z" "\<bar>z - real_of_int k / 10\<bar> \<le> 2 powi (- 51)"
    by blast
  from z(2) have dz: "z \<le> real_of_int k / 10 + 2 powi (- 51)" "real_of_int k / 10 - 2 powi (- 51) \<le> z"
    unfolding abs_le_iff by linarith+
  from dz have "real_of_int k \<le> z * 10 + 1 / 2" "z * 10 + 1 / 2 < real_of_int k + 1" by simp_all
  then have "\<lfloor>z * 10 + 1 / 2\<rfloor> = k" by linarith
  then have "numeric_2_1 x = real_of_int k / 10" using k(3) z(1) by (simp add: numeric_2_1_def)
  with k(1,2) show ?thesis by simp
qed

lemma validateRating_below: "\<not> validateRating (binary64 0.9)"
proof -
  from binary64_near [of "- 1" "0.9"] obtain z where
    z: "binary64 0.9 = Finite z"
    and up: "\<forall>n. 0.9 \<le> real_of_int n * 2 powi (- 53) \<longrightarrow> z \<le> real_of_int n * 2 powi (- 53)"
    by auto
  from up [rule_format, of "2 ^ 53 - 1"] have "z < 1" by simp
  then show ?thesis using z by (simp add: validateRating_def number_ge_def)
qed

lemma validateRating_above: "\<not> validateRating (binary64 5.1)"
proof -
  from binary64_near [of 2 "5.1"] obtain z where
    z: "binary64 5.1 = Finite z"
    and lo: "\<forall>n. real_of_int n * 2 powi (- 50) \<le> 5.1 \<longrightarrow> real_of_int n * 2 powi (- 50) \<le> z"
    by auto
  from lo [rule_format, of "5 * 2 ^ 50 + 1"] have "5 < z" by simp
  then show ?thesis using z by (simp add: validateRating_def number_ge_def)
qed

lemma validateRating_two_decimals: "\<not> validateRating (binary64 3.33)"
proof
  assume v: "validateRating (binary64 3.33)"
  from binary64_near [of 1 "3.33"] obtain z where
    z: "binary64 3.33 = Finite z" "\<bar>z - 3.33\<bar> \<le> 2 powi (- 52)"
    by auto
  from v obtain k where k: "10 \<le> k" "k \<le> 50" "binary64 3.33 = binary64 (real_of_int k / 10)"
    unfolding validateRating_iff by auto
  from tenth_near [OF k(1,2)] k(3) z(1) have "\<bar>z - real_of_int k / 10\<bar> \<le> 2 powi (- 51)"
    by auto
  then have "z \<le> real_of_int k / 10 + 2 powi (- 51)" "real_of_int k / 10 - 2 powi (- 51) \<le> z"
    unfolding abs_le_iff by linarith+
  moreover from z(2) have "z \<le> 3.33 + 2 powi (- 52)" "3.33 - 2 powi (- 52) \<le> z"
    unfolding abs_le_iff by linarith+
  ultimately have "real_of_int (10 * k) < real_of_int 334" "real_of_int 332 < real_of_int (10 * k)"
    by simp_all
  then have "10 * k < 334" "332 < 10 * k" by (simp_all only: of_int_less_iff)
  then show False by presburger
qed

lemma validateRating_examples:
  "validateRating (binary64 1.0) \<and> validateRating (binary64 5.0) \<and> validateRating (binary64 3.5)
   \<and> validateRating (binary64 3.3)"
  using validateRating_tenth [of 10] validateRating_tenth [of 50] validateRating_tenth [of 35]
    validateRating_tenth [of 33]
  by simp

text \<open>
  Claim C5.  Rating validation accepts a number exactly when it lies in [1.0, 5.0] and
  equals itself rounded to one decimal place, that is, when it is the double of one of
  the 41 decimals k/10 with k from 10 to 50.  The numbers written 1.0, 5.0 and 3.5 are
  accepted; 0.9, 5.1 and 3.33 are rejected.  The number written 3.3, whose double is
  7430939385161318 / 2251799813685248, is accepted, and so is every decimal that has the
  same double, such as 3.30000000000000001.
\<close>

theorem validateRating_accepts_exactly_one_decimal_in_range:
  "validateRating x
     = (number_le (Finite 1) x \<and> number_le x (Finite 5) \<and> x = rounded_to_one_decimal x)
   \<and> validateRating x = (x \<in> (\<lambda>k. binary64 (real_of_int k / 10)) ` {10..50})
   \<and> validateRating (binary64 1.0) \<and> validateRating (binary64 5.0)
   \<and> validateRating (binary64 3.5)
   \<and> \<not> validateRating (binary64 0.9) \<and> \<not> validateRating (binary64 5.1)
   \<and> \<not> validateRating (binary64 3.33)
   \<and> binary64 3.3 = Finite (7430939385161318 / 2251799813685248)
   \<and> validateRating (Finite (7430939385161318 / 2251799813685248))
   \<and> binary64 3.30000000000000001 = binary64 3.3"
proof -
  have "validateRating (Finite (7430939385161318 / 2251799813685248))"
    using validateRating_examples by (simp only: binary64_3_3)
  with validateRating_spec [of x] validateRating_iff [of x] validateRating_examples
    validateRating_below validateRating_above validateRating_two_decimals binary64_3_3
    binary64_3_3_longer
  show ?thesis by blast
qed

subsection \<open>The interaction window\<close>

lemma window_iff:
  "isInInteractionWindow now e = (e \<le> now \<and> now \<le> e + 168 * 3600000)"
  by (auto simp: isInInteractionWindow_def INTERACTION_WINDOW_HOURS_def Let_def)

lemma post_comment_window_403:
  assumes "find_event eid d = Some ev" "find_going eid uid d = Some g"
  shows "(fst (post_comment now cid (Some uid) eid body d)
            = Inl (Status 403 ''Can only comment within 7 days after event ends''))
         = (\<not> isInInteractionWindow now (ev_endsAt ev))"
  using assms
  by (auto simp: post_comment_def Let_def split: sum.splits)

lemma post_rating_window_403:
  assumes "find_event eid d = Some ev" "find_going eid uid d = Some g" "validateRating rating"
  shows "(fst (post_rating now rid (Some uid) eid rating d)
            = Inl (Status 403 ''Can only rate within 7 days after event ends''))
         = (\<not> isInInteractionWindow now (ev_endsAt ev))"
  using assms
  by (auto simp: post_rating_def Let_def split: sum.splits)

lemma post_image_window_403:
  assumes "find_event eid d = Some ev" "find_going eid uid d = Some g"
  shows "(fst (post_image now iid (Some uid) eid up stored d)
            = Inl (Status 403 ''Can only upload images within 7 days after event ends''))
         = (\<not> isInInteractionWindow now (ev_endsAt ev))"
  using assms
  by (auto simp: post_image_def Let_def split: sum.splits upload.splits option.splits)

text \<open>
  Claim C1, as amended.  For every event and every instant, the window that gates
  comment, rate and upload-image is open exactly when end \<open>\<le>\<close> now \<open>\<le>\<close> end + 168 hours,
  the instant of the end included: for a viewer who is going, each of the three routes
  answers its window error exactly outside this interval.  Six hours after the end the
  window is open, 169 hours after the end it is closed, and before the end (the event
  upcoming or running) it is closed.
\<close>

theorem interaction_window_closed_interval:
  assumes "find_event eid d = Some ev" and "find_going eid uid d = Some g"
  shows
    "isInInteractionWindow now (ev_endsAt ev)
       = (ev_endsAt ev \<le> now \<and> now \<le> ev_endsAt ev + 168 * 3600000)
     \<and> (fst (post_comment now cid (Some uid) eid body d)
           = Inl (Status 403 ''Can only comment within 7 days after event ends''))
       = (\<not> (ev_endsAt ev \<le> now \<and> now \<le> ev_endsAt ev + 168 * 3600000))
     \<and> (validateRating rating \<longrightarrow>
          (fst (post_rating now rid (Some uid) eid rating d)
             = Inl (Status 403 ''Can only rate within 7 days after event ends''))
          = (\<not> (ev_endsAt ev \<le> now \<and> now \<le> ev_endsAt ev + 168 * 3600000)))
     \<and> (fst (post_image now iid (Some uid) eid up stored d)
           = Inl (Status 403 ''Can only upload images within 7 days after event ends''))
       = (\<not> (ev_endsAt ev \<le> now \<and> now \<le> ev_endsAt ev + 168 * 3600000))
     \<and> isInInteractionWindow (ev_endsAt ev + 6 * 3600000) (ev_endsAt ev)
     \<and> \<not> isInInteractionWindow (ev_endsAt ev + 169 * 3600000) (ev_endsAt ev)
     \<and> (now < ev_endsAt ev \<longrightarrow> \<not> isInInteractionWindow now (ev_endsAt ev))"
  using post_comment_window_403 [OF assms, where now = now and cid = cid and body = body]
        post_rating_window_403 [OF assms, where now = now and rid = rid and rating = rating]
        post_image_window_403 [OF assms, where now = now and iid = iid and up = up and stored = stored]
  by (simp add: window_iff)

theorem interaction_window_closed_interval_witness:
  "find_event ''e1'' scenario_db = Some scenario_event
   \<and> find_going ''e1'' ''u1'' scenario_db
       = Some \<lparr>going_id = ''g1'', going_eventId = ''e1'', going_userId = ''u1'',
               going_createdAt = 1771000000000\<rparr>
   \<and> validateRating (Finite 4.5)
   \<and> ev_endsAt scenario_event < 1772445600000
   \<and> isInInteractionWindow 1772445600000 (ev_endsAt scenario_event)
   \<and> fst (post_comment 1772445600000 ''c1'' (Some ''u1'') ''e1'' ''great night'' scenario_db)
       \<noteq> Inl (Status 403 ''Can only comment within 7 days after event ends'')
   \<and> fst (post_rating 1772445600000 ''r9'' (Some ''u1'') ''e1'' (Finite 4.5) scenario_db)
       \<noteq> Inl (Status 403 ''Can only rate within 7 days after event ends'')
   \<and> fst (post_image 1772445600000 ''i1'' (Some ''u1'') ''e1'' (FileData ''a.jpg'') (Some ''u'') scenario_db)
       \<noteq> Inl (Status 403 ''Can only upload images within 7 days after event ends'')
   \<and> \<not> isInInteractionWindow 1773032400000 (ev_endsAt scenario_event)"
proof -
  have e: "find_event ''e1'' scenario_db = Some scenario_event"
    by (simp add: find_event_def scenario_db_def scenario_event_def)
  have g: "find_going ''e1'' ''u1'' scenario_db
       = Some \<lparr>going_id = ''g1'', going_eventId = ''e1'', going_userId = ''u1'',
               going_createdAt = 1771000000000\<rparr>"
    by (simp add: find_going_def scenario_db_def)
  have v: "validateRating (Finite 4.5)" by (rule validateRating_4_5)
  have t: "ev_endsAt scenario_event = 1772424000000" by (simp add: scenario_event_def)
  show ?thesis
    using e g v
      interaction_window_closed_interval [OF e g, where now = 1772445600000 and cid = "''c1''"
        and body = "''great night''" and rating = "Finite 4.5" and rid = "''r9''" and iid = "''i1''"
        and up = "FileData ''a.jpg''" and stored = "Some ''u''"]
    by (simp add: t)
qed

text \<open>
  Claim C1 as stated fails at the instant the event ends: that instant belongs to the
  running event (start \<open>\<le>\<close> now \<open>\<le>\<close> end) and is not after the end, yet the window is open
  and the comment of a viewer who is going is stored.
\<close>

theorem comment_permitted_at_the_instant_the_event_ends:
  "ev_startsAt scenario_event \<le> 1772424000000
   \<and> 1772424000000 \<le> ev_endsAt scenario_event
   \<and> \<not> ev_endsAt scenario_event < 1772424000000
   \<and> isInInteractionWindow 1772424000000 (ev_endsAt scenario_event)
   \<and> fst (post_comment 1772424000000 ''c1'' (Some ''u1'') ''e1'' ''great night'' scenario_db)
      = Inr (\<lparr>comment_id = ''c1'', comment_eventId = ''e1'', comment_userId = ''u1'',
               comment_body = ''great night'', comment_createdAt = 1772424000000\<rparr>,
             Some \<lparr>profile_id = ''u1'', profile_username = ''ana'', profile_role = User,
                    profile_avatarUrl = None\<rparr>)"
proof -
  have "fst (post_comment 1772424000000 ''c1'' (Some ''u1'') ''e1'' ''great night'' scenario_db)
      = Inr (\<lparr>comment_id = ''c1'', comment_eventId = ''e1'', comment_userId = ''u1'',
               comment_body = ''great night'', comment_createdAt = 1772424000000\<rparr>,
             Some \<lparr>profile_id = ''u1'', profile_username = ''ana'', profile_role = User,
                    profile_avatarUrl = None\<rparr>)"
    by code_simp
  then show ?thesis
    by (simp add: scenario_event_def window_iff)
qed

subsection \<open>Retracting attendance\<close>

text \<open>
  The going button of the event screen refuses to retract once the event has started,
  and leaves the table as it is.
\<close>

lemma handleGoingToggle_denies_after_start:
  assumes "dt_user st = Some uid" "dt_event st = Some ev" "dt_isGoing st" "now \<ge> fe_starts_at ev"
  shows "handleGoingToggle now io eid st table = (st\<lparr>dt_toast := Some CannotRemoveAfterStart\<rparr>, table)"
  using assms by (simp add: handleGoingToggle_def)

text \<open>The route of the backend removes the attendance of the caller whenever it is called.\<close>

lemma delete_going_removes:
  "delete_going (Some uid) eid d = (r, d') \<Longrightarrow> r = Inr () \<and> find_going eid uid d' = None"
  by (auto simp: delete_going_def find_going_def find_None_iff)

text \<open>
  Claim C3 says that a user who is going cannot retract once the event has started.  The
  route DELETE /api/events/:id/going does not look at the event: for the event of the
  scenario, which started at 1772402400000, a request of the going user ''u1'' made at
  any later instant (1772410000000, say) is answered with success and the attendance row
  of (''e1'', ''u1'') is gone.
\<close>

theorem delete_going_after_start_removes_attendance:
  "ev_startsAt scenario_event \<le> 1772410000000
   \<and> find_going ''e1'' ''u1'' scenario_db
       = Some \<lparr>going_id = ''g1'', going_eventId = ''e1'', going_userId = ''u1'',
               going_createdAt = 1771000000000\<rparr>
   \<and> fst (delete_going (Some ''u1'') ''e1'' scenario_db) = Inr ()
   \<and> eventGoing (snd (delete_going (Some ''u1'') ''e1'' scenario_db))
       = [\<lparr>going_id = ''g2'', going_eventId = ''e1'', going_userId = ''u2'',
            going_createdAt = 1771000000001\<rparr>]
   \<and> find_going ''e1'' ''u1'' (snd (delete_going (Some ''u1'') ''e1'' scenario_db)) = None"
  by (simp add: delete_going_def find_going_def scenario_db_def scenario_event_def)

subsection \<open>Deleting an event that has ended\<close>

text \<open>
  Claim C10.  For an event whose end lies before now, a delete request of a caller who is
  not an administrator is answered with an error and the database is unchanged; the
  event's own organizer is answered 403 "Cannot delete ended events".  An administrator's
  request deletes the event (with its dependent rows).
\<close>

theorem delete_ended_event_refused_unless_admin:
  assumes "find_event eid d = Some ev" and "ev_endsAt ev < now"
  shows
    "(\<not> is_admin session d \<longrightarrow>
        (\<exists>c m. fst (delete_event now session eid d) = Inl (Status c m))
        \<and> snd (delete_event now session eid d) = d)
     \<and> (\<not> is_admin session d \<and> session = Some (ev_organizerId ev) \<longrightarrow>
          delete_event now session eid d = (Inl (Status 403 ''Cannot delete ended events''), d))
     \<and> (is_admin session d \<longrightarrow>
          delete_event now session eid d = (Inr (), delete_events eid d)
          \<and> find_event eid (delete_events eid d) = None)"
  using assms
  by (cases session)
     (auto simp: delete_event_def is_admin_def Let_def find_event_def delete_events_def
        find_None_iff)

theorem delete_ended_event_refused_unless_admin_witness:
  "find_event ''e1'' scenario_db = Some scenario_event
   \<and> ev_endsAt scenario_event < 1772445600000
   \<and> \<not> is_admin (Some ''org'') scenario_db
   \<and> delete_event 1772445600000 (Some ''org'') ''e1'' scenario_db
       = (Inl (Status 403 ''Cannot delete ended events''), scenario_db)
   \<and> is_admin (Some ''adm'') scenario_db
   \<and> delete_event 1772445600000 (Some ''adm'') ''e1'' scenario_db
       = (Inr (), delete_events ''e1'' scenario_db)
   \<and> find_event ''e1'' (delete_events ''e1'' scenario_db) = None"
proof -
  have e: "find_event ''e1'' scenario_db = Some scenario_event"
    by (simp add: find_event_def scenario_db_def scenario_event_def)
  have t: "ev_endsAt scenario_event < 1772445600000" by (simp add: scenario_event_def)
  have o: "\<not> is_admin (Some ''org'') scenario_db"
    by (simp add: is_admin_def find_profile_def scenario_db_def)
  have a: "is_admin (Some ''adm'') scenario_db"
    by (simp add: is_admin_def find_profile_def scenario_db_def)
  have oid: "ev_organizerId scenario_event = ''org''" by (simp add: scenario_event_def)
  show ?thesis
    using e t o a oid
      delete_ended_event_refused_unless_admin [OF e t, of "Some ''org''"]
      delete_ended_event_refused_unless_admin [OF e t, of "Some ''adm''"]
    by simp
qed

subsection \<open>Resolving the viewer's location\<close>

lemma table_empty_key: "CITY_FALLBACK_COORDS [] = None"
  by (simp add: CITY_FALLBACK_COORDS_def city_table_def Object_prototype_def)

lemma coordsForCity_table: "coordsForCity city = CITY_FALLBACK_COORDS (normalizeCityKey city)"
  by (auto simp: coordsForCity_def Let_def table_empty_key)

lemma city_table_empty_key: "map_of city_table [] = None"
  by (simp add: city_table_def)

lemma table_own_key:
  assumes "Object_prototype key = None"
  shows "CITY_FALLBACK_COORDS key = map_option PlainObject (map_of city_table key)"
  using assms by (simp add: CITY_FALLBACK_COORDS_def split: option.splits)

lemma city_table_coordinate:
  assumes "map_of city_table key = Some c"
  shows "is_coordinate c"
  using assms by (auto simp: city_table_def is_coordinate_def split: if_splits)

lemma slovenia_coordinate: "is_coordinate slovenia"
  by (simp add: slovenia_def is_coordinate_def)

text \<open>The location that a first run sets, for every state and every answer of the world.\<close>

lemma loadLocation_location:
  assumes "\<not> locationLoadedRef st"
  shows "location (loadLocation io st) = Some
     (if getItem_location_rejects io then PlainObject slovenia
      else case stored_location st of
        Some Malformed \<Rightarrow> PlainObject slovenia
      | Some (Text c) \<Rightarrow> PlainObject c
      | None \<Rightarrow>
         (case permission io of
            None \<Rightarrow> PlainObject slovenia
          | Some status \<Rightarrow>
             if status = ''granted''
             then (case position io of
                     None \<Rightarrow> PlainObject slovenia
                   | Some loc \<Rightarrow>
                       if setItem_rejects io then PlainObject slovenia
                       else PlainObject \<lparr>lat = Num (latitude loc), lng = Num (longitude loc)\<rparr>)
             else if getItem_city_rejects io \<or> setItem_rejects io then PlainObject slovenia
             else (case coordsForCity (selected_city st) of
                     Some c \<Rightarrow> c
                   | None \<Rightarrow> PlainObject slovenia)))"
  using assms
  by (auto simp: loadLocation_def loadLocation_try_def setLocation_and_store_def Let_def
        coordsForCity_table table_empty_key
      split: option.splits sum.splits if_splits stored_text.splits)

lemma loadLocation_stored:
  assumes "\<not> locationLoadedRef st" "all_calls_succeed io" "stored_location st = None"
    "Object_prototype (normalizeCityKey (selected_city st)) = None"
  shows "stored_location (loadLocation io st)
           = Some (Text (JSON_LatLng
               (spec_resolution_chain None (device_coordinate io) (selected_city st))))"
  using assms
  by (auto simp: loadLocation_def loadLocation_try_def setLocation_and_store_def Let_def
        all_calls_succeed_def spec_resolution_chain_def device_coordinate_def table_own_key
        city_table_empty_key
      split: option.splits sum.splits if_splits)

lemma loadLocation_stored_kept:
  assumes "stored_location st = Some text"
  shows "stored_location (loadLocation io st) = Some text"
  using assms
  by (auto simp: loadLocation_def loadLocation_try_def
      split: option.splits sum.splits if_splits stored_text.splits)

lemma loadLocation_flag:
  "locationLoadedRef (loadLocation io st)"
  by (auto simp: loadLocation_def loadLocation_try_def setLocation_and_store_def Let_def
      split: option.splits sum.splits if_splits stored_text.splits)

lemma loadLocation_later_run:
  assumes "locationLoadedRef st"
  shows "loadLocation io st = st"
  using assms by (simp add: loadLocation_def)

lemma loadLocation_position_fails:
  assumes "\<not> locationLoadedRef st" "\<not> getItem_location_rejects io" "stored_location st = None"
    "permission io = Some ''granted''" "position io = None"
  shows "stored_location (loadLocation io st) = None"
  using assms
  by (auto simp: loadLocation_def loadLocation_try_def)

text \<open>
  A selected city whose normalized name is the name of a property that the table object
  inherits takes the city branch: the location becomes a value that is no coordinate.
\<close>

lemma loadLocation_inherited_key:
  "location (loadLocation (scenario_io\<lparr>permission := Some ''denied''\<rparr>)
               (scenario_state\<lparr>selected_city := Some ''Constructor''\<rparr>)) = Some BuiltinFunction
   \<and> location (loadLocation (scenario_io\<lparr>permission := Some ''denied''\<rparr>)
               (scenario_state\<lparr>selected_city := Some ''__proto__''\<rparr>))
       = Some (PlainObject \<lparr>lat = Undefined, lng = Undefined\<rparr>)
   \<and> stored_location (loadLocation (scenario_io\<lparr>permission := Some ''denied''\<rparr>)
               (scenario_state\<lparr>selected_city := Some ''__proto__''\<rparr>))
       = Some (Text \<lparr>lat = Undefined, lng = Undefined\<rparr>)"
proof -
  have k: "normalizeCityKey (Some ''Constructor'') = ''constructor''"
    "normalizeCityKey (Some ''__proto__'') = ''__proto__''" by code_simp+
  have t: "CITY_FALLBACK_COORDS ''constructor'' = Some BuiltinFunction"
    "CITY_FALLBACK_COORDS ''__proto__'' = Some (PlainObject \<lparr>lat = Undefined, lng = Undefined\<rparr>)"
    by (simp_all add: CITY_FALLBACK_COORDS_def city_table_def Object_prototype_def)
  show ?thesis
    by (simp add: loadLocation_def loadLocation_try_def setLocation_and_store_def Let_def
          scenario_state_def scenario_io_def k t JSON_LatLng_def)
qed

text \<open>
  Claim C8, as amended.  Let the selected city not normalize to the name of a property
  that the table object inherits, and let the persisted text, if it can be read, hold a
  coordinate.  Then a first run of the viewer location resolution yields a coordinate
  for every combination of the other inputs.  When no storage, permission or position
  call fails and the persisted text can be read, the coordinate is the first that exists
  of (1) the persisted coordinate, (2) the device coordinate obtained under a granted
  permission, (3) the entry in the table of cities of the selected city, normalized by
  trimming, lower-casing and collapsing white space, and (4) the country fallback; a
  coordinate found by (2), (3) or (4) is persisted.  When a call fails the result is the
  country fallback: in particular, when permission is granted and the position cannot be
  obtained, the table of cities is not consulted and nothing is persisted.  The last
  part of the statement gives the coordinate for every combination of answers.
\<close>

theorem loadLocation_resolves_or_falls_back:
  assumes "\<not> locationLoadedRef st"
    and "Object_prototype (normalizeCityKey (selected_city st)) = None"
    and "\<And>c. stored_location st = Some (Text c) \<Longrightarrow> is_coordinate c"
  shows
    "(\<exists>c. location (loadLocation io st) = Some (PlainObject c) \<and> is_coordinate c)
     \<and> locationLoadedRef (loadLocation io st)
     \<and> (all_calls_succeed io \<and> stored_location st \<noteq> Some Malformed \<longrightarrow>
          location (loadLocation io st)
            = Some (PlainObject (spec_resolution_chain (persisted_coordinate st)
                                   (device_coordinate io) (selected_city st)))
          \<and> stored_location (loadLocation io st)
            = (case stored_location st of
                 None \<Rightarrow> Some (Text (JSON_LatLng
                           (spec_resolution_chain None (device_coordinate io) (selected_city st))))
               | Some text \<Rightarrow> Some text))
     \<and> (\<not> getItem_location_rejects io \<and> stored_location st = None
          \<and> permission io = Some ''granted'' \<and> position io = None \<longrightarrow>
          location (loadLocation io st) = Some (PlainObject slovenia)
          \<and> stored_location (loadLocation io st) = None)
     \<and> location (loadLocation io st) = Some (PlainObject
         (if getItem_location_rejects io then slovenia
          else case stored_location st of
            Some Malformed \<Rightarrow> slovenia
          | Some (Text c) \<Rightarrow> c
          | None \<Rightarrow>
             (case permission io of
                None \<Rightarrow> slovenia
              | Some status \<Rightarrow>
                 if status = ''granted''
                 then (case position io of
                         None \<Rightarrow> slovenia
                       | Some loc \<Rightarrow>
                           if setItem_rejects io then slovenia
                           else \<lparr>lat = Num (latitude loc), lng = Num (longitude loc)\<rparr>)
                 else if getItem_city_rejects io \<or> setItem_rejects io then slovenia
                 else (case map_of city_table (normalizeCityKey (selected_city st)) of
                         Some c \<Rightarrow> c
                       | None \<Rightarrow> slovenia))))"
proof -
  have city: "coordsForCity (selected_city st)
                = map_option PlainObject (map_of city_table (normalizeCityKey (selected_city st)))"
    using assms(2) by (simp add: coordsForCity_table table_own_key)
  have loc: "location (loadLocation io st) = Some (PlainObject
         (if getItem_location_rejects io then slovenia
          else case stored_location st of
            Some Malformed \<Rightarrow> slovenia
          | Some (Text c) \<Rightarrow> c
          | None \<Rightarrow>
             (case permission io of
                None \<Rightarrow> slovenia
              | Some status \<Rightarrow>
                 if status = ''granted''
                 then (case position io of
                         None \<Rightarrow> slovenia
                       | Some loc \<Rightarrow>
                           if setItem_rejects io then slovenia
                           else \<lparr>lat = Num (latitude loc), lng = Num (longitude loc)\<rparr>)
                 else if getItem_city_rejects io \<or> setItem_rejects io then slovenia
                 else (case map_of city_table (normalizeCityKey (selected_city st)) of
                         Some c \<Rightarrow> c
                       | None \<Rightarrow> slovenia))))"
    unfolding loadLocation_location [OF assms(1), of io] city
    by (simp split: option.splits stored_text.splits)
  have a: "\<exists>c. location (loadLocation io st) = Some (PlainObject c) \<and> is_coordinate c"
    unfolding loc using assms(3) slovenia_coordinate city_table_coordinate
    by (auto simp: is_coordinate_def split: option.splits stored_text.splits)
  have b: "location (loadLocation io st)
            = Some (PlainObject (spec_resolution_chain (persisted_coordinate st)
                                   (device_coordinate io) (selected_city st)))"
    if "all_calls_succeed io" "stored_location st \<noteq> Some Malformed"
    unfolding loc using that
    by (auto simp: all_calls_succeed_def spec_resolution_chain_def device_coordinate_def
          persisted_coordinate_def split: option.splits if_splits stored_text.splits)
  have s: "stored_location (loadLocation io st)
            = (case stored_location st of
                 None \<Rightarrow> Some (Text (JSON_LatLng
                           (spec_resolution_chain None (device_coordinate io) (selected_city st))))
               | Some text \<Rightarrow> Some text)"
    if "all_calls_succeed io"
    using loadLocation_stored [OF assms(1) that _ assms(2)] loadLocation_stored_kept [of st _ io]
    by (cases "stored_location st") simp_all
  have c: "location (loadLocation io st) = Some (PlainObject slovenia)"
    if "\<not> getItem_location_rejects io \<and> stored_location st = None
          \<and> permission io = Some ''granted'' \<and> position io = None"
    unfolding loc using that by simp
  from a b s c loadLocation_flag [of io st] loadLocation_position_fails [OF assms(1), of io]
  have "(\<exists>c. location (loadLocation io st) = Some (PlainObject c) \<and> is_coordinate c)
     \<and> locationLoadedRef (loadLocation io st)
     \<and> (all_calls_succeed io \<and> stored_location st \<noteq> Some Malformed \<longrightarrow>
          location (loadLocation io st)
            = Some (PlainObject (spec_resolution_chain (persisted_coordinate st)
                                   (device_coordinate io) (selected_city st)))
          \<and> stored_location (loadLocation io st)
            = (case stored_location st of
                 None \<Rightarrow> Some (Text (JSON_LatLng
                           (spec_resolution_chain None (device_coordinate io) (selected_city st))))
               | Some text \<Rightarrow> Some text))
     \<and> (\<not> getItem_location_rejects io \<and> stored_location st = None
          \<and> permission io = Some ''granted'' \<and> position io = None \<longrightarrow>
          location (loadLocation io st) = Some (PlainObject slovenia)
          \<and> stored_location (loadLocation io st) = None)"
    by blast
  with loc show ?thesis by blast
qed

theorem loadLocation_resolves_or_falls_back_witness:
  "\<not> locationLoadedRef scenario_state
   \<and> Object_prototype (normalizeCityKey (selected_city scenario_state)) = None
   \<and> stored_location scenario_state = None
   \<and> all_calls_succeed (scenario_io\<lparr>permission := Some ''denied''\<rparr>)
   \<and> location (loadLocation (scenario_io\<lparr>permission := Some ''denied''\<rparr>) scenario_state)
       = Some (PlainObject \<lparr>lat = Num (binary64 46.5547), lng = Num (binary64 15.6459)\<rparr>)
   \<and> stored_location (loadLocation (scenario_io\<lparr>permission := Some ''denied''\<rparr>) scenario_state)
       = Some (Text \<lparr>lat = Num (binary64 46.5547), lng = Num (binary64 15.6459)\<rparr>)
   \<and> \<not> getItem_location_rejects scenario_io
   \<and> permission scenario_io = Some ''granted'' \<and> position scenario_io = None
   \<and> location (loadLocation scenario_io scenario_state) = Some (PlainObject slovenia)
   \<and> stored_location (loadLocation scenario_io scenario_state) = None"
proof -
  have f: "\<not> locationLoadedRef scenario_state" by (simp add: scenario_state_def)
  have k: "normalizeCityKey (Some '' Maribor '') = ''maribor''" by code_simp
  have n: "Object_prototype (normalizeCityKey (selected_city scenario_state)) = None"
    by (simp add: scenario_state_def k Object_prototype_def)
  have t: "stored_location scenario_state = None" by (simp add: scenario_state_def)
  then have h: "\<And>c. stored_location scenario_state = Some (Text c) \<Longrightarrow> is_coordinate c"
    by simp
  have s: "all_calls_succeed (scenario_io\<lparr>permission := Some ''denied''\<rparr>)"
    by (simp add: all_calls_succeed_def scenario_io_def)
  have ch: "spec_resolution_chain (persisted_coordinate scenario_state)
              (device_coordinate (scenario_io\<lparr>permission := Some ''denied''\<rparr>))
              (selected_city scenario_state)
            = \<lparr>lat = Num (binary64 46.5547), lng = Num (binary64 15.6459)\<rparr>"
    "spec_resolution_chain None
              (device_coordinate (scenario_io\<lparr>permission := Some ''denied''\<rparr>))
              (selected_city scenario_state)
            = \<lparr>lat = Num (binary64 46.5547), lng = Num (binary64 15.6459)\<rparr>"
    by (simp_all add: spec_resolution_chain_def scenario_state_def device_coordinate_def
          persisted_coordinate_def scenario_io_def k city_table_def)
  have j: "JSON_LatLng \<lparr>lat = Num (binary64 46.5547), lng = Num (binary64 15.6459)\<rparr>
             = \<lparr>lat = Num (binary64 46.5547), lng = Num (binary64 15.6459)\<rparr>"
    using binary64_finite [of "46.5547"] binary64_finite [of "15.6459"]
    by (simp add: JSON_LatLng_def)
  have p: "\<not> getItem_location_rejects scenario_io
   \<and> permission scenario_io = Some ''granted'' \<and> position scenario_io = None"
    by (simp add: scenario_io_def)
  show ?thesis
    using f n t s p ch j
      loadLocation_resolves_or_falls_back [OF f n h, of "scenario_io\<lparr>permission := Some ''denied''\<rparr>"]
      loadLocation_resolves_or_falls_back [OF f n h, of scenario_io]
    by simp
qed

text \<open>
  Claim C8 as stated fails when permission is granted and the position cannot be read:
  nothing is persisted, no device coordinate is obtained, the selected city (Maribor) has
  an entry in the table, which the chain of the claim returns; the code returns the
  country fallback.
\<close>

theorem loadLocation_skips_city_when_position_fails:
  "stored_location scenario_state = None
   \<and> device_coordinate scenario_io = None
   \<and> CITY_FALLBACK_COORDS (normalizeCityKey (selected_city scenario_state))
       = Some (PlainObject \<lparr>lat = Num (binary64 46.5547), lng = Num (binary64 15.6459)\<rparr>)
   \<and> spec_resolution_chain (persisted_coordinate scenario_state) (device_coordinate scenario_io)
        (selected_city scenario_state)
       = \<lparr>lat = Num (binary64 46.5547), lng = Num (binary64 15.6459)\<rparr>
   \<and> location (loadLocation scenario_io scenario_state)
       = Some (PlainObject \<lparr>lat = Num (binary64 46.1512), lng = Num (binary64 14.9955)\<rparr>)"
proof -
  have k: "normalizeCityKey (Some '' Maribor '') = ''maribor''" by code_simp
  show ?thesis
    by (simp add: scenario_state_def scenario_io_def device_coordinate_def k
          CITY_FALLBACK_COORDS_def city_table_def spec_resolution_chain_def loadLocation_def
          loadLocation_try_def slovenia_def persisted_coordinate_def)
qed

subsection \<open>Resolving media URLs\<close>

lemma truthy_Some: "truthy v \<Longrightarrow> v = Some (text_of v)"
  by (cases v) (auto simp: truthy_def text_of_def)

lemma catch_sign_fails: "sign_fails r \<Longrightarrow> catch_fall_through (try_signed now r b p e c) = None"
  by (cases r) (auto simp: sign_fails_def try_signed_def catch_fall_through_def)

lemma catch_public_fails: "public_fails r \<Longrightarrow> catch_fall_through (try_public now r b p e c) = None"
  by (cases r) (auto simp: public_fails_def try_public_def catch_fall_through_def)

lemma resolveStorageUrl_returns:
  "\<exists>r. resolveStorageUrl now sign pub bucket v ttl cache = Returns r"
  by (auto simp: resolveStorageUrl_def Let_def split: option.splits prod.splits)

text \<open>
  Claim C9.  For every bucket and stored reference the media-URL resolver returns and
  never throws.  A reference that is already a signed URL of the bucket is returned
  unchanged.  When no fresh cache entry answers, and both the creation of a signed URL
  and the public-URL fallback fail, the input value is returned unchanged (and the cache
  with it).
\<close>

theorem resolveStorageUrl_never_throws_and_falls_back_to_input:
  "(\<exists>r. resolveStorageUrl now sign pub bucket v ttl cache = Returns r)
   \<and> (truthy v \<and> startsWith (text_of v) ''http''
        \<and> String_includes (text_of v) (''/storage/v1/object/sign/'' @ bucket @ ''/'') \<longrightarrow>
        resolveStorageUrl now sign pub bucket v ttl cache = Returns (v, cache))
   \<and> (truthy v
        \<and> cache_hit now cache
             (cacheKey bucket (text_of (tryExtractBucketPath bucket (text_of v)))
                (case ttl of None \<Rightarrow> DEFAULT_EXPIRES_IN | Some e \<Rightarrow> e)) = None
        \<and> sign_fails (sign bucket (text_of (tryExtractBucketPath bucket (text_of v)))
                         (case ttl of None \<Rightarrow> DEFAULT_EXPIRES_IN | Some e \<Rightarrow> e))
        \<and> public_fails (pub bucket (text_of (tryExtractBucketPath bucket (text_of v)))) \<longrightarrow>
        resolveStorageUrl now sign pub bucket v ttl cache = Returns (v, cache))"
proof -
  have a: "truthy v \<and> startsWith (text_of v) ''http''
        \<and> String_includes (text_of v) (''/storage/v1/object/sign/'' @ bucket @ ''/'') \<Longrightarrow>
        resolveStorageUrl now sign pub bucket v ttl cache = Returns (v, cache)"
    using truthy_Some [of v] by (auto simp: resolveStorageUrl_def Let_def)
  have b: "truthy v
        \<and> cache_hit now cache
             (cacheKey bucket (text_of (tryExtractBucketPath bucket (text_of v)))
                (case ttl of None \<Rightarrow> DEFAULT_EXPIRES_IN | Some e \<Rightarrow> e)) = None
        \<and> sign_fails (sign bucket (text_of (tryExtractBucketPath bucket (text_of v)))
                         (case ttl of None \<Rightarrow> DEFAULT_EXPIRES_IN | Some e \<Rightarrow> e))
        \<and> public_fails (pub bucket (text_of (tryExtractBucketPath bucket (text_of v)))) \<Longrightarrow>
        resolveStorageUrl now sign pub bucket v ttl cache = Returns (v, cache)"
    using truthy_Some [of v]
    by (auto simp: resolveStorageUrl_def Let_def catch_sign_fails catch_public_fails)
  from a b resolveStorageUrl_returns show ?thesis by blast
qed


theorem resolveStorageUrl_never_throws_and_falls_back_to_input_witness:
  "truthy (Some ''https://x.supabase.co/storage/v1/object/sign/event-posters/a.jpg?token=t'')
   \<and> startsWith ''https://x.supabase.co/storage/v1/object/sign/event-posters/a.jpg?token=t'' ''http''
   \<and> String_includes ''https://x.supabase.co/storage/v1/object/sign/event-posters/a.jpg?token=t''
        (''/storage/v1/object/sign/'' @ ''event-posters'' @ ''/'')
   \<and> resolveStorageUrl 0 (\<lambda>b p e. SignThrows) (\<lambda>b p. PublicThrows) ''event-posters''
        (Some ''https://x.supabase.co/storage/v1/object/sign/event-posters/a.jpg?token=t'')
        None Map.empty
       = Returns (Some ''https://x.supabase.co/storage/v1/object/sign/event-posters/a.jpg?token=t'',
                  Map.empty)
   \<and> truthy (Some ''/posters/a.jpg'')
   \<and> cache_hit 0 Map.empty (cacheKey ''event-posters'' ''posters/a.jpg'' 3600) = None
   \<and> sign_fails (SignReturns True None) \<and> public_fails PublicThrows
   \<and> resolveStorageUrl 0 (\<lambda>b p e. SignReturns True None) (\<lambda>b p. PublicThrows) ''event-posters''
        (Some ''/posters/a.jpg'') None Map.empty
       = Returns (Some ''/posters/a.jpg'', Map.empty)"
proof -
  let ?u = "''https://x.supabase.co/storage/v1/object/sign/event-posters/a.jpg?token=t''"
  have t1: "truthy (Some ?u)" "truthy (Some ''/posters/a.jpg'')"
    by (simp_all add: truthy_def)
  have s: "startsWith ?u ''http''" by (simp add: startsWith_def)
  have i: "String_includes ?u (''/storage/v1/object/sign/'' @ ''event-posters'' @ ''/'')"
    by code_simp
  have p: "tryExtractBucketPath ''event-posters'' ''/posters/a.jpg'' = Some ''posters/a.jpg''"
    by (simp add: tryExtractBucketPath_def startsWith_def)
  have c: "cache_hit 0 Map.empty (cacheKey ''event-posters'' ''posters/a.jpg'' 3600) = None"
    by (simp add: cache_hit_def)
  have f: "sign_fails (SignReturns True None)" "public_fails PublicThrows"
    by (simp_all add: sign_fails_def public_fails_def)
  show ?thesis
    using t1 s i c f
      resolveStorageUrl_never_throws_and_falls_back_to_input
        [of 0 "\<lambda>b p e. SignThrows" "\<lambda>b p. PublicThrows" "''event-posters''" "Some ?u" None Map.empty]
      resolveStorageUrl_never_throws_and_falls_back_to_input
        [of 0 "\<lambda>b p e. SignReturns True None" "\<lambda>b p. PublicThrows" "''event-posters''"
            "Some ''/posters/a.jpg''" None Map.empty]
    by (simp add: text_of_def p DEFAULT_EXPIRES_IN_def)
qed

subsection \<open>One rating per event and user\<close>

lemma ratings_of_list_ex:
  "(ratings_of eid uid d \<noteq> [])
     = list_ex (\<lambda>x. rating_eventId x = eid \<and> rating_userId x = uid) (eventRatings d)"
  by (auto simp: ratings_of_def filter_empty_conv list_ex_iff)

lemma insert_duplicate_rejected:
  assumes "ratings_of (rating_eventId r) (rating_userId r) d \<noteq> []"
  shows "insert_eventRatings r d = Inl UniqueViolation"
  using assms by (simp add: insert_eventRatings_def ratings_of_list_ex)

lemma insert_keeps_unique:
  assumes "ratings_unique d" "insert_eventRatings r d = Inr d'"
  shows "ratings_unique d'"
proof -
  from assms(2) have new: "\<not> list_ex (\<lambda>x. rating_eventId x = rating_eventId r
              \<and> rating_userId x = rating_userId r) (eventRatings d)"
    and d': "d' = d\<lparr>eventRatings := eventRatings d @ [r]\<rparr>"
    by (auto simp: insert_eventRatings_def split: if_splits)
  from new have "(rating_eventId r, rating_userId r)
      \<notin> set (map (\<lambda>r. (rating_eventId r, rating_userId r)) (eventRatings d))"
    by (auto simp: list_ex_iff)
  with assms(1) show ?thesis unfolding d' by (simp add: ratings_unique_def)
qed

lemma post_rating_db:
  "snd (post_rating now rid session eid rating d) = d
   \<or> (\<exists>r. insert_eventRatings r d = Inr (snd (post_rating now rid session eid rating d)))"
  by (auto simp: post_rating_def Let_def split: option.splits sum.splits)

lemma submit_keeps_unique:
  assumes "ratings_unique d"
  shows "ratings_unique (submit s d)"
  using post_rating_db [of "sub_now s" "sub_new_id s" "sub_session s" "sub_event s" "sub_rating s" d]
    assms insert_keeps_unique
  by (auto simp: submit_def)

lemma submit_all_keeps_unique:
  assumes "ratings_unique d"
  shows "ratings_unique (submit_all ss d)"
  using assms unfolding submit_all_def
  by (induction ss arbitrary: d) (auto simp: submit_keeps_unique)

lemma unique_at_most_one:
  assumes "ratings_unique d"
  shows "length (ratings_of eid uid d) \<le> 1"
proof -
  let ?k = "\<lambda>r. (rating_eventId r, rating_userId r)"
  have "ratings_of eid uid d = filter (\<lambda>r. ?k r = (eid, uid)) (eventRatings d)"
    by (simp add: ratings_of_def)
  moreover have "distinct (map ?k xs) \<Longrightarrow> length (filter (\<lambda>r. ?k r = (eid, uid)) xs) \<le> 1" for xs
    by (induction xs) (auto simp: filter_empty_conv image_iff)
  ultimately show ?thesis using assms by (simp add: ratings_unique_def)
qed

lemma post_rating_duplicate:
  assumes "ratings_of eid uid d \<noteq> []"
  shows "\<exists>c m. post_rating now rid (Some uid) eid rating d = (Inl (Status c m), d)"
  using insert_duplicate_rejected [of "\<lparr>rating_id = rid, rating_eventId = eid, rating_userId = uid,
           rating_value = numeric_2_1 rating, rating_createdAt = now\<rparr>" d] assms
  by (auto simp: post_rating_def Let_def split: option.splits)

lemma post_rating_conflict:
  assumes "ratings_of eid uid d \<noteq> []" "validateRating rating" "find_event eid d = Some ev"
    "find_going eid uid d = Some g" "isInInteractionWindow now (ev_endsAt ev)"
  shows "post_rating now rid (Some uid) eid rating d = (Inl (Status 409 ''Already rated this event''), d)"
  using insert_duplicate_rejected [of "\<lparr>rating_id = rid, rating_eventId = eid, rating_userId = uid,
           rating_value = numeric_2_1 rating, rating_createdAt = now\<rparr>" d] assms
  by (auto simp: post_rating_def Let_def split: option.splits)

text \<open>
  Claim C4, as amended.  For every (event, user) pair at most one rating record ever
  exists.  The table itself rejects a second row for the pair (the unique index), and the
  route has no check of its own.  A submission of a user who has already rated the event
  is answered with an error and leaves the database unchanged: with 409 "Already rated
  this event" whenever it passes the checks that precede the insert (a valid value, the
  event exists, the caller is going, the window is open), and with the error of the first
  of those checks that fails otherwise.  After any sequence of submissions a table with
  at most one rating per pair still has at most one rating per pair.
\<close>

theorem rating_unique_per_event_and_user:
  "(ratings_of (rating_eventId r) (rating_userId r) d \<noteq> [] \<longrightarrow>
      insert_eventRatings r d = Inl UniqueViolation)
   \<and> (ratings_of eid uid d \<noteq> [] \<longrightarrow>
        (\<exists>c m. post_rating now rid (Some uid) eid rating d = (Inl (Status c m), d)))
   \<and> (ratings_of eid uid d \<noteq> [] \<and> validateRating rating \<and> find_event eid d = Some ev
        \<and> find_going eid uid d = Some g \<and> isInInteractionWindow now (ev_endsAt ev) \<longrightarrow>
        post_rating now rid (Some uid) eid rating d
          = (Inl (Status 409 ''Already rated this event''), d))
   \<and> (ratings_unique d \<longrightarrow>
        ratings_unique (submit_all ss d) \<and> length (ratings_of eid uid (submit_all ss d)) \<le> 1)"
proof (intro conjI impI)
  assume "ratings_of (rating_eventId r) (rating_userId r) d \<noteq> []"
  then show "insert_eventRatings r d = Inl UniqueViolation" by (rule insert_duplicate_rejected)
next
  assume "ratings_of eid uid d \<noteq> []"
  then show "\<exists>c m. post_rating now rid (Some uid) eid rating d = (Inl (Status c m), d)"
    by (rule post_rating_duplicate)
next
  assume "ratings_of eid uid d \<noteq> [] \<and> validateRating rating \<and> find_event eid d = Some ev
        \<and> find_going eid uid d = Some g \<and> isInInteractionWindow now (ev_endsAt ev)"
  then show "post_rating now rid (Some uid) eid rating d
          = (Inl (Status 409 ''Already rated this event''), d)"
    by (simp add: post_rating_conflict)
next
  assume u: "ratings_unique d"
  then show "ratings_unique (submit_all ss d)" by (rule submit_all_keeps_unique)
  then show "length (ratings_of eid uid (submit_all ss d)) \<le> 1" by (rule unique_at_most_one)
qed


theorem rating_unique_per_event_and_user_witness:
  "ratings_of ''e1'' ''u1'' scenario_db \<noteq> []
   \<and> validateRating (Finite 3)
   \<and> find_event ''e1'' scenario_db = Some scenario_event
   \<and> find_going ''e1'' ''u1'' scenario_db
       = Some \<lparr>going_id = ''g1'', going_eventId = ''e1'', going_userId = ''u1'',
               going_createdAt = 1771000000000\<rparr>
   \<and> isInInteractionWindow 1772445600000 (ev_endsAt scenario_event)
   \<and> insert_eventRatings
        \<lparr>rating_id = ''r9'', rating_eventId = ''e1'', rating_userId = ''u1'', rating_value = 3,
         rating_createdAt = 1772445600000\<rparr> scenario_db = Inl UniqueViolation
   \<and> post_rating 1772445600000 ''r9'' (Some ''u1'') ''e1'' (Finite 3) scenario_db
       = (Inl (Status 409 ''Already rated this event''), scenario_db)
   \<and> ratings_unique scenario_db
   \<and> ratings_unique
        (submit_all [\<lparr>sub_now = 1772445600000, sub_new_id = ''r9'', sub_session = Some ''u1'',
                      sub_event = ''e1'', sub_rating = Finite 3\<rparr>] scenario_db)
   \<and> length (ratings_of ''e1'' ''u1''
        (submit_all [\<lparr>sub_now = 1772445600000, sub_new_id = ''r9'', sub_session = Some ''u1'',
                      sub_event = ''e1'', sub_rating = Finite 3\<rparr>] scenario_db)) \<le> 1"
proof -
  let ?r = "\<lparr>rating_id = ''r9'', rating_eventId = ''e1'', rating_userId = ''u1'',
             rating_value = 3, rating_createdAt = 1772445600000\<rparr>"
  have a: "ratings_of ''e1'' ''u1'' scenario_db \<noteq> []"
    by (simp add: ratings_of_def scenario_db_def)
  have a': "ratings_of (rating_eventId ?r) (rating_userId ?r) scenario_db \<noteq> []"
    using a by simp
  have v: "validateRating (Finite 3)" by (rule validateRating_3)
  have e: "find_event ''e1'' scenario_db = Some scenario_event"
    by (simp add: find_event_def scenario_db_def scenario_event_def)
  have g: "find_going ''e1'' ''u1'' scenario_db
       = Some \<lparr>going_id = ''g1'', going_eventId = ''e1'', going_userId = ''u1'',
               going_createdAt = 1771000000000\<rparr>"
    by (simp add: find_going_def scenario_db_def)
  have w: "isInInteractionWindow 1772445600000 (ev_endsAt scenario_event)"
    by (simp add: isInInteractionWindow_def INTERACTION_WINDOW_HOURS_def scenario_event_def)
  have u: "ratings_unique scenario_db"
    by (simp add: ratings_unique_def scenario_db_def)
  show ?thesis
    using a a' v e g w u
      rating_unique_per_event_and_user
        [where r = ?r and d = scenario_db and eid = "''e1''" and uid = "''u1''"
           and now = 1772445600000 and rid = "''r9''" and rating = "Finite 3" and ev = scenario_event
           and g = "\<lparr>going_id = ''g1'', going_eventId = ''e1'', going_userId = ''u1'',
               going_createdAt = 1771000000000\<rparr>"
           and ss = "[\<lparr>sub_now = 1772445600000, sub_new_id = ''r9'', sub_session = Some ''u1'',
                      sub_event = ''e1'', sub_rating = Finite 3\<rparr>]"]
    by simp
qed

text \<open>
  Claim C4 as stated fails for a second submission made after the window has closed: the
  user ''u1'' has rated the event, and 169 hours after its end a further, valid submission
  is answered with the window error 403, not with the conflict error 409.
\<close>

theorem second_rating_after_window_is_403_not_409:
  "ratings_of ''e1'' ''u1'' scenario_db \<noteq> []
   \<and> validateRating (Finite 3)
   \<and> post_rating 1773032400000 ''r9'' (Some ''u1'') ''e1'' (Finite 3) scenario_db
       = (Inl (Status 403 ''Can only rate within 7 days after event ends''), scenario_db)
   \<and> Status 403 ''Can only rate within 7 days after event ends''
       \<noteq> Status 409 ''Already rated this event''"
proof -
  have v: "validateRating (Finite 3)" by (rule validateRating_3)
  have e: "find_event ''e1'' scenario_db = Some scenario_event"
    by (simp add: find_event_def scenario_db_def scenario_event_def)
  have g: "find_going ''e1'' ''u1'' scenario_db \<noteq> None"
    by (simp add: find_going_def scenario_db_def)
  have w: "\<not> isInInteractionWindow 1773032400000 (ev_endsAt scenario_event)"
    by (simp add: isInInteractionWindow_def INTERACTION_WINDOW_HOURS_def scenario_event_def)
  have a: "ratings_of ''e1'' ''u1'' scenario_db \<noteq> []"
    by (simp add: ratings_of_def scenario_db_def)
  from v e g w a show ?thesis
    by (auto simp: post_rating_def)
qed

subsection \<open>Ranking the feed by distance\<close>

text \<open>
  An event whose coordinates read \<open>undefined\<close> has the distance NaN, and an event at the
  viewer's place has the distance zero when the engine's cosine lies in [-1, 1].
\<close>

lemma calculateDistance_NaN: "calculateDistance m lat1 lng1 NaN NaN = NaN"
  by (simp add: calculateDistance_def Let_def Math_PI_def Math_atan2_def)

lemma calculateDistance_same_place:
  assumes c: "\<And>x. \<bar>cos_of m x\<bar> \<le> 1" and u: "\<bar>u\<bar> \<le> 2 powi 10"
  shows "calculateDistance m (Finite u) (Finite v) (Finite u) (Finite v) = Finite 0"
proof -
  have "\<bar>u * (884279719003555 / 281474976710656)\<bar> = \<bar>u\<bar> * (884279719003555 / 281474976710656)"
    by (simp add: abs_mult)
  also have "\<dots> \<le> 2 powi 10 * 4" using u by (intro mult_mono) simp_all
  finally have "\<bar>u * (884279719003555 / 281474976710656)\<bar> \<le> 2 powi 12" by simp
  from binary64_bounded [OF this] obtain w where
    w: "binary64 (u * (884279719003555 / 281474976710656)) = Finite w" "\<bar>w\<bar> \<le> 2 powi 12"
    by auto
  have "\<bar>w / 180\<bar> \<le> 2 powi 12" using w(2) by simp
  from binary64_bounded [OF this] obtain t where t: "binary64 (w / 180) = Finite t" by auto
  have A: "number_times (Finite u) Math_PI = Finite w"
    unfolding Math_PI_def number_times.simps by (rule w(1))
  have B: "number_divide (Finite w) (Finite 180) = Finite t" by (simp add: t)
  obtain k where k: "Math_cos m (Finite t) = Finite k" "\<bar>k\<bar> \<le> 1"
    using c by (cases "t = 0") auto
  have "\<bar>k * k\<bar> \<le> 2 powi 0"
    using mult_le_one [of "\<bar>k\<bar>" "\<bar>k\<bar>"] k(2) by (simp add: abs_mult)
  from binary64_bounded [OF this] obtain p where p: "binary64 (k * k) = Finite p" by auto
  have D: "number_minus (Finite u) (Finite u) = Finite 0" "number_minus (Finite v) (Finite v) = Finite 0"
    by (simp_all add: binary64_0)
  have E: "number_divide (number_times (Finite 0) Math_PI) (Finite 180) = Finite 0"
    by (simp add: Math_PI_def binary64_0)
  have F: "number_divide (Finite 0) (Finite 2) = Finite 0" by (simp add: binary64_0)
  have G: "number_times (Finite k) (Finite k) = Finite p" by (simp add: p)
  show ?thesis
    unfolding calculateDistance_def Let_def D E F A B k(1) G
    by (simp add: binary64_0 binary64_1 Math_atan2_def)
qed

lemma inherited_key_coords:
  "coordsForCity (Some ''Constructor'') = Some BuiltinFunction"
proof -
  have k: "normalizeCityKey (Some ''Constructor'') = ''constructor''" by code_simp
  show ?thesis
    by (simp add: coordsForCity_def Let_def k CITY_FALLBACK_COORDS_def city_table_def
          Object_prototype_def)
qed

text \<open>
  Claim C7 says that an event whose coordinate cannot be determined gets the distance
  plus infinity and is ranked after every event with a known distance.  The feed of
  the scenario holds an event without latitude and longitude whose city, Constructor,
  is no city of the table, followed by an event at the viewer's place.  The code reads
  the inherited property \<open>constructor\<close> of the table object as the coordinate of the
  first event, computes the distance NaN from its missing \<open>lat\<close> and \<open>lng\<close>, and the
  comparison with NaN leaves the order as it is: the event without a coordinate stays
  before the event at distance zero.
\<close>

theorem ranked_feed_keeps_inherited_city_name_before_nearest_event:
  "normalizeCityKey (Some ''Constructor'') = ''constructor''
   \<and> map_of city_table ''constructor'' = None
   \<and> toFiniteNumber pf JOther = NaN
   \<and> rankEvents m pf scenario_viewer scenario_feed
       = [\<lparr>event = scenario_row\<lparr>fe_id := ''c'', fe_city := Some ''Constructor'',
                                  fe_lat := JOther, fe_lng := JOther\<rparr>,
           distance = Some NaN\<rparr>,
          \<lparr>event = scenario_row,
           distance = Some (calculateDistance m (binary64 46.0569) (binary64 14.5058)
                              (binary64 46.0569) (binary64 14.5058))\<rparr>]
   \<and> calculateDistance scenario_math (binary64 46.0569) (binary64 14.5058)
        (binary64 46.0569) (binary64 14.5058) = Finite 0"
proof -
  have k: "normalizeCityKey (Some ''Constructor'') = ''constructor''" by code_simp
  have t: "map_of city_table ''constructor'' = None" by (simp add: city_table_def)
  have n: "toFiniteNumber pf JOther = NaN" by (simp add: toFiniteNumber_def)
  from binary64_bounded [of "46.0569" 10] obtain u where
    u: "binary64 46.0569 = Finite u" "\<bar>u\<bar> \<le> 2 powi 10" by auto
  from binary64_bounded [of "14.5058" 10] obtain v where
    v: "binary64 14.5058 = Finite v" by auto
  have first: "withDistance m pf scenario_viewer
                 (scenario_row\<lparr>fe_id := ''c'', fe_city := Some ''Constructor'',
                               fe_lat := JOther, fe_lng := JOther\<rparr>)
               = \<lparr>event = scenario_row\<lparr>fe_id := ''c'', fe_city := Some ''Constructor'',
                                        fe_lat := JOther, fe_lng := JOther\<rparr>,
                  distance = Some NaN\<rparr>"
    by (simp add: withDistance_def resolveEventCoords_def toFiniteNumber_def Let_def
          inherited_key_coords calculateDistance_NaN)
  have second: "withDistance m pf scenario_viewer scenario_row
               = \<lparr>event = scenario_row,
                  distance = Some (calculateDistance m (binary64 46.0569) (binary64 14.5058)
                              (binary64 46.0569) (binary64 14.5058))\<rparr>"
    unfolding scenario_row_def scenario_viewer_def u(1) v
    by (simp add: withDistance_def resolveEventCoords_def toFiniteNumber_def Let_def)
  have r: "rankEvents m pf scenario_viewer scenario_feed
       = [\<lparr>event = scenario_row\<lparr>fe_id := ''c'', fe_city := Some ''Constructor'',
                                  fe_lat := JOther, fe_lng := JOther\<rparr>,
           distance = Some NaN\<rparr>,
          \<lparr>event = scenario_row,
           distance = Some (calculateDistance m (binary64 46.0569) (binary64 14.5058)
                              (binary64 46.0569) (binary64 14.5058))\<rparr>]"
    unfolding rankEvents_def scenario_feed_def list.map first second
    by (simp add: Array_sort_def compareDistance_def orInfinity_def)
  have "\<And>x. \<bar>cos_of scenario_math x\<bar> \<le> 1" by (simp add: scenario_math_def)
  then have z: "calculateDistance scenario_math (binary64 46.0569) (binary64 14.5058)
        (binary64 46.0569) (binary64 14.5058) = Finite 0"
    unfolding u(1) v using u(2) by (rule calculateDistance_same_place)
  from k t n r z show ?thesis by simp
qed

subsection \<open>The feed of events\<close>

text \<open>Sorting rearranges; every row of the reply comes from one group of the query.\<close>

lemma set_insert_sorted: "set (insert_sorted cmp x ys) = insert x (set ys)"
  by (induction ys) auto

lemma set_Array_sort: "set (Array_sort cmp xs) = set xs"
  unfolding Array_sort_def by (induction xs) (auto simp: set_insert_sorted)

lemma in_groupBy:
  assumes "rows \<in> set (groupBy key table)"
  shows "\<exists>k \<in> set (map key table). rows = filter (\<lambda>r. key r = k) table"
  using assms by (auto simp: groupBy_def)

lemma in_select_group:
  assumes "g \<in> set (select_group rows)"
  shows "\<exists>row rest. rows = row # rest \<and> gr_event g = row_event row
           \<and> gr_avgRating g = sql_avg (map (\<lambda>r. map_option rating_value (row_rating r)) rows)"
  using assms by (cases rows) (auto simp: select_group_def)

lemma in_events_select:
  assumes "g \<in> set (events_select ilike q d)"
  shows "\<exists>row rest k. 
           filter (\<lambda>r. group_key r = k)
             (filter (\<lambda>row. list_all (\<lambda>c. c (row_event row)) (whereConditions ilike q))
                (events_joined d)) = row # rest
           \<and> gr_event g = row_event row
           \<and> gr_avgRating g = sql_avg (map (\<lambda>r. map_option rating_value (row_rating r)) (row # rest))"
proof -
  from assms obtain rows where
    r: "rows \<in> set (groupBy group_key
             (filter (\<lambda>row. list_all (\<lambda>c. c (row_event row)) (whereConditions ilike q))
                (events_joined d)))" and g: "g \<in> set (select_group rows)"
    by (auto simp: events_select_def)
  from in_groupBy [OF r] obtain k where
    k: "rows = filter (\<lambda>r. group_key r = k)
             (filter (\<lambda>row. list_all (\<lambda>c. c (row_event row)) (whereConditions ilike q))
                (events_joined d))" by blast
  from in_select_group [OF g] k show ?thesis by metis
qed

lemma whereConditions_published:
  assumes "list_all (\<lambda>c. c e) (whereConditions ilike q)"
  shows "ev_status e = Published"
  using assms by (simp add: whereConditions_def)

lemma events_select_published:
  assumes "g \<in> set (events_select ilike q d)"
  shows "ev_status (gr_event g) = Published"
proof -
  from in_events_select [OF assms] obtain row rest k where
    f: "filter (\<lambda>r. group_key r = k)
             (filter (\<lambda>row. list_all (\<lambda>c. c (row_event row)) (whereConditions ilike q))
                (events_joined d)) = row # rest" and e: "gr_event g = row_event row"
    by blast
  have "row \<in> set (filter (\<lambda>r. group_key r = k)
             (filter (\<lambda>row. list_all (\<lambda>c. c (row_event row)) (whereConditions ilike q))
                (events_joined d)))" unfolding f by simp
  then have "list_all (\<lambda>c. c (row_event row)) (whereConditions ilike q)" by simp
  with e show ?thesis by (simp add: whereConditions_published)
qed

lemma get_events_rows:
  assumes "get_events m pf ilike q d = Inr rs" "r \<in> set rs"
  shows "\<exists>g \<in> set (events_select ilike q d).
           en_status r = ev_status (gr_event g) \<and> en_id r = ev_id (gr_event g)
           \<and> en_avgRating r = gr_avgRating g"
proof -
  from assms(1) have "rs = Array_sort (\<lambda>a b. number_minus (en_distance a) (en_distance b))
        (map (enrich m (pf (text_of (q_lat q))) (pf (text_of (q_lng q)))) (events_select ilike q d))"
    by (auto simp: get_events_def Let_def split: if_splits)
  with assms(2) have "r \<in> enrich m (pf (text_of (q_lat q))) (pf (text_of (q_lng q)))
        ` set (events_select ilike q d)"
    by (simp add: set_Array_sort)
  then show ?thesis by (auto simp: enrich_def Let_def)
qed

lemma feed_query_published:
  "list_all (\<lambda>e. fe_status e = Published) (feed_query ilike now f table)"
  by (auto simp: feed_query_def Let_def list_all_iff)


















lemma scenario_select:
  "events_select (\<lambda>v p. True) scenario_query scenario_db =
   [\<lparr>gr_event = scenario_event,
     gr_organizer = Some \<lparr>profile_id = ''org'', profile_username = ''organizer'',
          profile_role = Organizer, profile_avatarUrl = None\<rparr>,
     gr_goingCount = 4, gr_avgRating = Some 4.5\<rparr>]"
  by code_simp

lemma scenario_get_events:
  "get_events scenario_math (\<lambda>s. if s = ''46.05'' then binary64 46.05 else binary64 14.5) (\<lambda>v p. True)
     scenario_query scenario_db = Inr [scenario_reply]"
proof -
  have t: "truthy (q_lat scenario_query)" "truthy (q_lng scenario_query)"
    "text_of (q_lat scenario_query) = ''46.05''" "text_of (q_lng scenario_query) = ''14.5''"
    by (simp_all add: scenario_query_def truthy_def text_of_def)
  show ?thesis
    by (simp add: get_events_def scenario_select t Array_sort_def Let_def scenario_reply_def
          binary64_not_NaN)
qed

text \<open>
  Claim C2.  For every combination of the filters (region, city, genre, search text, or
  none), every event in the reply of GET /api/events has the status published, and so
  has every row of the query the home screen sends for its feed; a draft or cancelled
  event is in neither.
\<close>

theorem general_feed_only_published:
  "(get_events m pf ilike q d = Inr rs \<longrightarrow> list_all (\<lambda>r. en_status r = Published) rs)
   \<and> list_all (\<lambda>e. fe_status e = Published) (feed_query ilike now f table)"
proof (intro conjI impI)
  assume a: "get_events m pf ilike q d = Inr rs"
  show "list_all (\<lambda>r. en_status r = Published) rs"
    unfolding list_all_iff
  proof
    fix r assume "r \<in> set rs"
    from get_events_rows [OF a this] show "en_status r = Published"
      by (auto simp: events_select_published)
  qed
next
  show "list_all (\<lambda>e. fe_status e = Published) (feed_query ilike now f table)"
    by (rule feed_query_published)
qed



theorem general_feed_only_published_witness:
  "get_events scenario_math (\<lambda>s. if s = ''46.05'' then binary64 46.05 else binary64 14.5) (\<lambda>v p. True)
     scenario_query scenario_db = Inr [scenario_reply]
   \<and> map ev_status (events scenario_db) = [Published, Draft]
   \<and> list_all (\<lambda>r. en_status r = Published) [scenario_reply]
   \<and> map en_id [scenario_reply] = [''e1'']
   \<and> list_all (\<lambda>e. fe_status e = Published)
        (feed_query (\<lambda>v p. True) 1772402400000
           \<lparr>organizerId = None, selectedRegion = [], selectedGenre = ''techno'', searchQuery = []\<rparr>
           (scenario_row\<lparr>fe_id := ''d'', fe_status := Draft\<rparr> # scenario_feed))"
  using scenario_get_events
    general_feed_only_published
      [where m = scenario_math
         and pf = "\<lambda>s. if s = ''46.05'' then binary64 46.05 else binary64 14.5"
         and ilike = "\<lambda>v p. True" and q = scenario_query and d = scenario_db
         and rs = "[scenario_reply]" and now = 1772402400000
         and f = "\<lparr>organizerId = None, selectedRegion = [], selectedGenre = ''techno'',
                   searchQuery = []\<rparr>"
         and table = "scenario_row\<lparr>fe_id := ''d'', fe_status := Draft\<rparr> # scenario_feed"]
  by (simp add: scenario_db_def scenario_event_def scenario_draft_def scenario_reply_def enrich_def
        Let_def)



end
